theory Spec2Isabelle
  imports Complex_Main "HOL-Library.AList"
begin

section \<open>Python values\<close>

text \<open>
  The tool catalogue of \<^verbatim>\<open>server/src/tools_search.py\<close> passes untyped Python data
  around in three places: the filter map of a search request, the flat metadata map of a
  stored record, and the value that \<^verbatim>\<open>json.loads\<close> returns. They are modelled by one
  datatype of JSON-like values. A dict is an association list in insertion order whose
  keys are distinct, which is what a Python dict is; \<open>AList.update\<close> is the assignment
  \<^verbatim>\<open>d[k] = v\<close> (the value is replaced in place, a new key goes to the end).
\<close>

datatype pyval =
    PNone
  | PBool bool
  | PInt int
  | PStr string
  | PList "pyval list"
  | PDict "(string \<times> pyval) list"

type_synonym pydict = "(string \<times> pyval) list"

text \<open>Truth value of an object, as \<^verbatim>\<open>if x:\<close> and \<^verbatim>\<open>not x\<close> test it.\<close>

fun truthy :: "pyval \<Rightarrow> bool" where
  "truthy PNone = False"
| "truthy (PBool b) = b"
| "truthy (PInt i) = (i \<noteq> 0)"
| "truthy (PStr s) = (s \<noteq> [])"
| "truthy (PList xs) = (xs \<noteq> [])"
| "truthy (PDict d) = (d \<noteq> [])"

text \<open>\<^verbatim>\<open>d.get(k)\<close> and \<^verbatim>\<open>d.get(k, default)\<close>.\<close>

definition dict_get :: "pydict \<Rightarrow> string \<Rightarrow> pyval" where
  "dict_get d k = (case map_of d k of None \<Rightarrow> PNone | Some v \<Rightarrow> v)"

definition dict_get_default :: "pydict \<Rightarrow> string \<Rightarrow> pyval \<Rightarrow> pyval" where
  "dict_get_default d k dflt = (case map_of d k of None \<Rightarrow> dflt | Some v \<Rightarrow> v)"

text \<open>\<^verbatim>\<open>type(x).__name__\<close>, which Python's own error texts quote.\<close>

fun type_name :: "pyval \<Rightarrow> string" where
  "type_name PNone = ''NoneType''"
| "type_name (PBool b) = ''bool''"
| "type_name (PInt i) = ''int''"
| "type_name (PStr s) = ''str''"
| "type_name (PList xs) = ''list''"
| "type_name (PDict d) = ''dict''"

section \<open>Strings\<close>

text \<open>\<^verbatim>\<open>s.startswith(p)\<close>, \<^verbatim>\<open>sub in s\<close>, \<^verbatim>\<open>s.lower()\<close> (on ASCII letters) and
  \<^verbatim>\<open>sep.join(xs)\<close>.\<close>

fun startswith :: "string \<Rightarrow> string \<Rightarrow> bool" where
  "startswith s [] = True"
| "startswith [] (p # ps) = False"
| "startswith (c # cs) (p # ps) = (c = p \<and> startswith cs ps)"

fun contains :: "string \<Rightarrow> string \<Rightarrow> bool" where
  "contains sub [] = (sub = [])"
| "contains sub (c # cs) = (startswith (c # cs) sub \<or> contains sub cs)"

definition lower_char :: "char \<Rightarrow> char" where
  "lower_char c =
     (case map_of (zip ''ABCDEFGHIJKLMNOPQRSTUVWXYZ'' ''abcdefghijklmnopqrstuvwxyz'') c of
        None \<Rightarrow> c
      | Some l \<Rightarrow> l)"

definition lower :: "string \<Rightarrow> string" where
  "lower s = map lower_char s"

fun join :: "string \<Rightarrow> string list \<Rightarrow> string" where
  "join sep [] = []"
| "join sep [x] = x"
| "join sep (x # y # ys) = x @ sep @ join sep (y # ys)"

text \<open>\<^verbatim>\<open>str(n)\<close> for an integer: decimal digits, a minus sign for a negative one.\<close>

definition digit_char :: "nat \<Rightarrow> char" where
  "digit_char d = ''0123456789'' ! (d mod 10)"

fun str_nat :: "nat \<Rightarrow> string" where
  "str_nat n = (if n < 10 then [digit_char n] else str_nat (n div 10) @ [digit_char (n mod 10)])"

declare str_nat.simps [simp del]

definition str_int :: "int \<Rightarrow> string" where
  "str_int i = (if i < 0 then CHR ''-'' # str_nat (nat (- i)) else str_nat (nat i))"

section \<open>Errors\<close>

datatype ErrorCode =
    UNKNOWN_ERROR
  | INITIALIZATION_ERROR
  | CONFIGURATION_ERROR
  | DEPENDENCY_ERROR
  | VALIDATION_ERROR
  | EMBEDDING_ERROR
  | PINECONE_ERROR
  | UPSERT_ERROR
  | QUERY_ERROR
  | DELETE_ERROR
  | FETCH_ERROR
  | FILE_LOAD_ERROR
  | TOOLKIT_UPSERT_ERROR
  | TOOLKIT_QUERY_ERROR
  | TOOLKIT_DELETE_ERROR
  | BATCH_UPSERT_ERROR
  | BATCH_DELETE_ERROR
  | STATS_ERROR

text \<open>
  An exception in flight. \<open>ToolSearchError\<close> is the module's own class with its message
  and error code; the others are the Python classes that the modelled code can meet, each
  with the text that \<^verbatim>\<open>str(e)\<close> gives. \<open>ServiceError\<close> stands for whatever exception
  an external client (embedding service, vector index) raises. All of them derive from
  \<^verbatim>\<open>Exception\<close>; \<open>JSONDecodeError\<close> and \<open>ValidationError\<close> derive from \<^verbatim>\<open>ValueError\<close>,
  \<open>RecursionError\<close> (which \<^verbatim>\<open>json.loads\<close> raises on a text nested too deeply) from
  \<^verbatim>\<open>RuntimeError\<close>.
\<close>

datatype py_exception =
    ToolSearchError string ErrorCode
  | JSONDecodeError string
  | TypeError string
  | ValueError string
  | ValidationError string
  | AttributeError string
  | RecursionError string
  | ServiceError string

fun str_exc :: "py_exception \<Rightarrow> string" where
  "str_exc (ToolSearchError m c) = m"
| "str_exc (JSONDecodeError m) = m"
| "str_exc (TypeError m) = m"
| "str_exc (ValueError m) = m"
| "str_exc (ValidationError m) = m"
| "str_exc (AttributeError m) = m"
| "str_exc (RecursionError m) = m"
| "str_exc (ServiceError m) = m"

section \<open>Entities\<close>

text \<open>
  The pydantic models. The fields of \<open>Tool\<close> keep the source's names; the fields of the
  other models carry a prefix where the name is shared with another model or is used as a
  variable name by the functions below (\<open>tk_\<close> for a toolkit, \<open>rq_\<close> for a request,
  \<open>r_\<close> for a response entry, \<open>param_\<close> for a parameter).
\<close>

record ToolParameter =
  name :: string
  param_type :: string
  required :: bool
  param_description :: "string option"

record Tool =
  action_id :: int
  toolkit_id :: int
  tool_name :: string
  description :: string
  parameters :: "ToolParameter list"
  toolkit :: string

record Toolkit =
  tk_toolkit_id :: int
  tk_name :: string
  tk_description :: string
  tk_tools :: "Tool list"

record ToolSearchRequest =
  rq_query :: string
  rq_top_k :: int
  rq_filters :: "pydict option"

record ToolSearchResponse =
  r_tool_name :: string
  r_action_id :: int
  r_toolkit_id :: int
  r_description :: string
  r_parameters :: "ToolParameter list"
  score :: real

section \<open>Libraries\<close>

text \<open>
  The code leans on two libraries whose source is not part of the repository. They are
  taken as parameters, so that every theorem holds for whatever they do.

  \<^item> \<open>json_dumps\<close> and \<open>json_loads\<close> are \<^verbatim>\<open>json.dumps\<close> and \<^verbatim>\<open>json.loads\<close>; the
    latter gives a value or raises: \<^verbatim>\<open>JSONDecodeError\<close> for a text that is not JSON,
    and whatever else the parser may raise (\<^verbatim>\<open>RecursionError\<close> for a text nested too
    deeply).
  \<^item> pydantic validates a value that already has the declared type as itself. What it
    does with a value of another type (its lax coercions, such as the string \<^verbatim>\<open>"5"\<close>
    for an \<^verbatim>\<open>int\<close> field) is \<open>lax_int\<close>, \<open>lax_str\<close> and \<open>lax_bool\<close>, with \<open>None\<close>
    for a rejected value; \<open>validation_text\<close> is the text of the \<^verbatim>\<open>ValidationError\<close>
    raised for a model name and the rejected keyword arguments.
\<close>

record library =
  json_dumps :: "pyval \<Rightarrow> string"
  json_loads :: "string \<Rightarrow> py_exception + pyval"
  lax_int :: "pyval \<Rightarrow> int option"
  lax_str :: "pyval \<Rightarrow> string option"
  lax_bool :: "pyval \<Rightarrow> bool option"
  validation_text :: "string \<Rightarrow> pydict \<Rightarrow> string"

definition validate_int :: "library \<Rightarrow> pyval \<Rightarrow> int option" where
  "validate_int lib v = (case v of PInt i \<Rightarrow> Some i | _ \<Rightarrow> lax_int lib v)"

definition validate_str :: "library \<Rightarrow> pyval \<Rightarrow> string option" where
  "validate_str lib v = (case v of PStr s \<Rightarrow> Some s | _ \<Rightarrow> lax_str lib v)"

definition validate_bool :: "library \<Rightarrow> pyval \<Rightarrow> bool option" where
  "validate_bool lib v = (case v of PBool b \<Rightarrow> Some b | _ \<Rightarrow> lax_bool lib v)"

definition validate_opt_str :: "library \<Rightarrow> pyval \<Rightarrow> string option option" where
  "validate_opt_str lib v =
     (case v of PNone \<Rightarrow> Some None | _ \<Rightarrow> map_option Some (validate_str lib v))"

text \<open>
  \<^verbatim>\<open>ToolParameter(**param_dict)\<close>. The argument after \<^verbatim>\<open>**\<close> must be a mapping, else
  Python raises \<^verbatim>\<open>TypeError\<close> before pydantic is entered. \<open>name\<close>, \<open>type\<close> and
  \<open>required\<close> are required fields, \<open>description\<close> defaults to \<^verbatim>\<open>None\<close>, other keys are
  ignored.
\<close>

definition ToolParameter_init :: "library \<Rightarrow> pyval \<Rightarrow> py_exception + ToolParameter" where
  "ToolParameter_init lib v =
     (case v of
        PDict d \<Rightarrow>
          (case (map_option (validate_str lib) (map_of d ''name''),
                 map_option (validate_str lib) (map_of d ''type''),
                 map_option (validate_bool lib) (map_of d ''required''),
                 validate_opt_str lib (dict_get d ''description'')) of
             (Some (Some n), Some (Some t), Some (Some r), Some ds) \<Rightarrow>
               Inr \<lparr>name = n, param_type = t, required = r, param_description = ds\<rparr>
           | _ \<Rightarrow> Inl (ValidationError (validation_text lib ''ToolParameter'' d)))
      | _ \<Rightarrow>
          Inl (TypeError (''ToolParameter() argument after ** must be a mapping, not ''
                          @ type_name v)))"

text \<open>\<^verbatim>\<open>param.model_dump()\<close>: the four fields, in declaration order.\<close>

definition model_dump :: "ToolParameter \<Rightarrow> pyval" where
  "model_dump p =
     PDict [(''name'', PStr (name p)),
            (''type'', PStr (param_type p)),
            (''required'', PBool (required p)),
            (''description'', (case param_description p of None \<Rightarrow> PNone | Some s \<Rightarrow> PStr s))]"

section \<open>Metadata codec\<close>

text \<open>
  Iterating a value with \<^verbatim>\<open>for x in v\<close>: a list gives its elements, a dict its keys, a
  string its characters; the other values are not iterable.
\<close>

definition py_iter :: "pyval \<Rightarrow> py_exception + pyval list" where
  "py_iter v =
     (case v of
        PList xs \<Rightarrow> Inr xs
      | PDict d \<Rightarrow> Inr (map (\<lambda>kv. PStr (fst kv)) d)
      | PStr s \<Rightarrow> Inr (map (\<lambda>c. PStr [c]) s)
      | _ \<Rightarrow> Inl (TypeError ([CHR 0x27] @ type_name v @ [CHR 0x27] @ '' object is not iterable'')))"

text \<open>
  The loop of \<open>parse_tool_parameters\<close>: each entry is appended to \<open>parameters\<close> as soon as
  it is built, so an exception at a later entry leaves the earlier ones in the list.
  The result is the list at the moment the loop ends, with the exception that ended it,
  if any.
\<close>

fun parse_loop ::
  "library \<Rightarrow> pyval list \<Rightarrow> ToolParameter list \<Rightarrow> ToolParameter list \<times> py_exception option"
where
  "parse_loop lib [] ps = (ps, None)"
| "parse_loop lib (d # ds) ps =
     (case ToolParameter_init lib d of
        Inl e \<Rightarrow> (ps, Some e)
      | Inr p \<Rightarrow> parse_loop lib ds (ps @ [p]))"

text \<open>The classes that the \<^verbatim>\<open>except (json.JSONDecodeError, TypeError, ValueError)\<close> clause
  catches. An exception of another class leaves \<open>parse_tool_parameters\<close>.\<close>

fun caught_by_parse :: "py_exception \<Rightarrow> bool" where
  "caught_by_parse (JSONDecodeError m) = True"
| "caught_by_parse (TypeError m) = True"
| "caught_by_parse (ValueError m) = True"
| "caught_by_parse (ValidationError m) = True"
| "caught_by_parse e = False"

definition parse_tool_parameters ::
  "library \<Rightarrow> pyval \<Rightarrow> py_exception + ToolParameter list"
where
  "parse_tool_parameters lib parameters_str =
     (if \<not> truthy parameters_str then Inr []
      else
        let attempt =
          (case parameters_str of
             PStr s \<Rightarrow>
               (case json_loads lib s of
                  Inl e \<Rightarrow> Inr ([], Some e)
                | Inr params_data \<Rightarrow>
                    (case py_iter params_data of
                       Inl e \<Rightarrow> Inr ([], Some e)
                     | Inr xs \<Rightarrow> Inr (parse_loop lib xs [])))
           | PList xs \<Rightarrow> Inr (parse_loop lib xs [])
           | _ \<Rightarrow> Inl ())
        in
          (case attempt of
             Inl u \<Rightarrow> Inr []
           | Inr (ps, None) \<Rightarrow> Inr ps
           | Inr (ps, Some e) \<Rightarrow> if caught_by_parse e then Inr ps else Inl e))"

text \<open>
  \<open>build_tool_metadata\<close>. A \<open>Tool\<close> has no attribute \<open>toolkit_name\<close>, so
  \<^verbatim>\<open>getattr(tool, 'toolkit_name', tool.toolkit)\<close> is \<open>tool.toolkit\<close>.
\<close>

definition build_tool_metadata :: "library \<Rightarrow> Tool \<Rightarrow> pydict" where
  "build_tool_metadata lib tool =
     [(''action_id'', PInt (action_id tool)),
      (''toolkit_id'', PInt (toolkit_id tool)),
      (''tool_name'', PStr (tool_name tool)),
      (''description'', PStr (description tool)),
      (''toolkit_name'', PStr (toolkit tool)),
      (''parameters'', PStr (json_dumps lib (PList (map model_dump (parameters tool)))))]"

text \<open>\<open>metadata_to_tool\<close>; the constructor \<^verbatim>\<open>Tool(...)\<close> validates its arguments.\<close>

definition Tool_init ::
  "library \<Rightarrow> pyval \<Rightarrow> pyval \<Rightarrow> pyval \<Rightarrow> pyval \<Rightarrow> ToolParameter list \<Rightarrow> pyval
     \<Rightarrow> py_exception + Tool"
where
  "Tool_init lib a k n d ps t =
     (case (validate_int lib a, validate_int lib k, validate_str lib n,
            validate_str lib d, validate_str lib t) of
        (Some a', Some k', Some n', Some d', Some t') \<Rightarrow>
          Inr \<lparr>action_id = a', toolkit_id = k', tool_name = n', description = d',
               parameters = ps, toolkit = t'\<rparr>
      | _ \<Rightarrow>
          Inl (ValidationError (validation_text lib ''Tool''
                 [(''action_id'', a), (''toolkit_id'', k), (''tool_name'', n),
                  (''description'', d), (''toolkit'', t)])))"

definition metadata_to_tool :: "library \<Rightarrow> pydict \<Rightarrow> py_exception + Tool" where
  "metadata_to_tool lib metadata =
     (case parse_tool_parameters lib (dict_get metadata ''parameters'') of
        Inl e \<Rightarrow> Inl e
      | Inr ps \<Rightarrow>
          Tool_init lib
            (dict_get_default metadata ''action_id'' (PInt 0))
            (dict_get_default metadata ''toolkit_id'' (PInt 0))
            (dict_get_default metadata ''tool_name'' (PStr ''''))
            (dict_get_default metadata ''description'' (PStr ''''))
            ps
            (dict_get_default metadata ''toolkit_name'' (PStr '''')))"

section \<open>Filter translator\<close>

text \<open>
  One step of the loop over \<open>required_params\<close> in \<open>_build_pinecone_filter\<close>. In the
  \<^verbatim>\<open>else\<close> branch the source assigns a fresh dict to \<open>pinecone_filter\<close>: whatever the
  filter held before is dropped, and the key \<open>required_params\<close> is no longer in it.
\<close>

definition in_clause :: "pyval list \<Rightarrow> pyval" where
  "in_clause vs = PDict [(''$in'', PList vs)]"

definition add_required_param :: "pydict \<Rightarrow> pyval \<Rightarrow> pydict" where
  "add_required_param pinecone_filter param =
     (case map_of pinecone_filter ''required_params'' of
        None \<Rightarrow> AList.update ''required_params'' (in_clause [param]) pinecone_filter
      | Some existing_filter \<Rightarrow>
          [(''$and'', PList [PDict [(''required_params'', existing_filter)],
                            PDict [(''required_params'', in_clause [param])]])])"

text \<open>The four keys that are handled alike: a list is taken as it is, a scalar becomes a
  one-element list; a falsy value (absent, \<^verbatim>\<open>None\<close>, \<^verbatim>\<open>0\<close>, empty) adds nothing.\<close>

definition add_membership :: "pydict \<Rightarrow> string \<Rightarrow> string \<Rightarrow> pydict \<Rightarrow> pydict" where
  "add_membership filters key field pinecone_filter =
     (let v = dict_get filters key in
      if truthy v then
        (case v of
           PList xs \<Rightarrow> AList.update field (in_clause xs) pinecone_filter
         | _ \<Rightarrow> AList.update field (in_clause [v]) pinecone_filter)
      else pinecone_filter)"

definition build_pinecone_filter :: "pydict \<Rightarrow> pydict" where
  "build_pinecone_filter filters =
     (if filters = [] then []
      else
        let f1 = add_membership filters ''tool_name'' ''tool_name'' [];
            f2 = add_membership filters ''toolkit'' ''toolkit_name'' f1;
            f3 = add_membership filters ''toolkit_id'' ''toolkit_id'' f2;
            f4 = add_membership filters ''chain'' ''chain'' f3;
            required_params = dict_get filters ''required_params''
        in
          if truthy required_params then
            (case required_params of
               PList ps \<Rightarrow> foldl add_required_param f4 ps
             | _ \<Rightarrow> AList.update ''required_params'' (in_clause [required_params]) f4)
          else f4)"

section \<open>Score normalisation\<close>

text \<open>
  A score is a finite IEEE-754 double, represented by its value, a real number. Each
  arithmetic operation on doubles gives the exact result rounded to the nearest double,
  a tie going to the even mantissa; \<open>round_to_double\<close> is that rounding. \<open>expo x\<close> is
  the binary exponent of a positive \<open>x\<close> (\<open>2 ^ e \<le> x < 2 ^ (e + 1)\<close>), and a double has
  53 significant bits, so the doubles next to \<open>x\<close> are the multiples of
  \<open>2 ^ (e - 52)\<close>. The exponent range of the format plays no part here: for a finite
  double \<open>distance\<close> neither \<open>distance + 1.0\<close> nor its half overflows or is subnormal,
  and the result lies between 0 and 1. The two zeros of the format are one value.
\<close>

definition round_half_even :: "real \<Rightarrow> int" where
  "round_half_even x =
     (let f = \<lfloor>x\<rfloor>; d = x - of_int f in
      if d < 1 / 2 then f else if 1 / 2 < d then f + 1 else if even f then f else f + 1)"

function expo :: "real \<Rightarrow> int" where
  "expo x = (if 2 \<le> x then expo (x / 2) + 1
             else if 0 < x \<and> x < 1 then expo (x * 2) - 1
             else 0)"
  by pat_completeness auto
termination
proof (relation "measure (\<lambda>x. nat \<lfloor>\<bar>log 2 x\<bar>\<rfloor> + (if x < 1 then 1 else 0))")
  show "wf (measure (\<lambda>x::real. nat \<lfloor>\<bar>log 2 x\<bar>\<rfloor> + (if x < 1 then 1 else 0)))"
    by simp
next
  fix x :: real
  assume x: "2 \<le> x"
  have l: "log 2 (x / 2) = log 2 x - 1" using x by (simp add: log_divide)
  have "1 \<le> log 2 x" using x by (simp add: le_log_iff)
  then show "(x / 2, x) \<in> measure (\<lambda>x. nat \<lfloor>\<bar>log 2 x\<bar>\<rfloor> + (if x < 1 then 1 else 0))"
    using x l by (simp add: nat_less_iff floor_less_iff)
next
  fix x :: real
  assume "\<not> 2 \<le> x" and "0 < x \<and> x < 1"
  then have x: "0 < x" "x < 1" by simp_all
  have l: "log 2 (x * 2) = log 2 x + 1" using x by (simp add: log_mult)
  have n: "log 2 x < 0" using x by simp
  show "(x * 2, x) \<in> measure (\<lambda>x. nat \<lfloor>\<bar>log 2 x\<bar>\<rfloor> + (if x < 1 then 1 else 0))"
  proof (cases "x * 2 < 1")
    case True
    then have m: "log 2 (x * 2) < 0" using x by simp
    then have "\<bar>log 2 (x * 2)\<bar> = \<bar>log 2 x\<bar> - 1" using l n by linarith
    moreover have "1 \<le> \<bar>log 2 x\<bar>" using l n m by linarith
    ultimately show ?thesis using True x by (simp add: nat_less_iff)
  next
    case False
    then have "0 \<le> log 2 (x * 2)" using x by (simp add: zero_le_log_cancel_iff)
    moreover have "log 2 (x * 2) < 1" using l n by linarith
    ultimately have "\<lfloor>\<bar>log 2 (x * 2)\<bar>\<rfloor> = 0" by (simp add: floor_eq_iff)
    then show ?thesis using False x by simp
  qed
qed

declare expo.simps [simp del]

definition round_to_double :: "real \<Rightarrow> real" where
  "round_to_double x =
     (if x = 0 then 0
      else let ulp = 2 powi (expo \<bar>x\<bar> - 52) in of_int (round_half_even (x / ulp)) * ulp)"

text \<open>\<^verbatim>\<open>x + y\<close> and \<^verbatim>\<open>x / y\<close> on doubles.\<close>

definition float_add :: "real \<Rightarrow> real \<Rightarrow> real" where
  "float_add x y = round_to_double (x + y)"

definition float_div :: "real \<Rightarrow> real \<Rightarrow> real" where
  "float_div x y = round_to_double (x / y)"

text \<open>
  \<^verbatim>\<open>round(x, ndigits)\<close> on a double: the exact value of \<open>x\<close> is rounded to \<open>ndigits\<close>
  decimal places, a tie going to the even digit, and the decimal number obtained is
  converted to the nearest double.
\<close>

definition py_round :: "real \<Rightarrow> nat \<Rightarrow> real" where
  "py_round x ndigits =
     round_to_double (of_int (round_half_even (x * 10 ^ ndigits)) / 10 ^ ndigits)"

definition convert_distance_to_similarity :: "real \<Rightarrow> real" where
  "convert_distance_to_similarity distance =
     (let normalized_score = float_div (float_add distance 1) 2 in
      py_round (max 0 (min 1 normalized_score)) 4)"

text \<open>The specification's \<open>clamp(x, lo, hi)\<close>, written from its words.\<close>

definition spec_clamp :: "real \<Rightarrow> real \<Rightarrow> real \<Rightarrow> real" where
  "spec_clamp x lo hi = (if x < lo then lo else if hi < x then hi else x)"

section \<open>External services\<close>

text \<open>
  The embedding service and the vector index are outside the program. What the program
  does with them is the sequence of calls it issues; that sequence (the trace) is the
  state that every operation threads through. A service answers a call with a value or
  raises, and its answer may depend on everything that was called before: each service
  function takes the trace so far. \<open>Inl m\<close> is an exception with text \<open>m\<close>. A query is
  recorded with its vector, \<open>top_k\<close>, filter (\<open>None\<close> when the code passes none) and
  namespace; \<open>include_metadata\<close> is \<^verbatim>\<open>True\<close> in every query the code makes.
\<close>

record vector =
  v_id :: string
  v_values :: "real list"
  v_metadata :: pydict

record match =
  m_metadata :: pydict
  m_score :: real

datatype call =
    EmbedQuery string
  | EmbedDocuments "string list"
  | IndexUpsert "vector list" string
  | IndexQuery "real list" int "pydict option" string
  | IndexDelete "string list" string
  | IndexFetch "string list" string
  | DescribeIndexStats

text \<open>
  The answer of \<^verbatim>\<open>describe_index_stats()\<close>: the \<open>namespaces\<close> entry if there is one,
  and for each namespace its \<open>vector_count\<close> if there is one.
\<close>

type_synonym index_stats = "(string \<times> int option) list option"

text \<open>
  The provider object (\<open>self\<close>): its configuration, the two clients, and the random
  number generator that \<^verbatim>\<open>np.random.rand\<close> draws from.
\<close>

record ToolSearchProvider =
  lib :: library
  embedding_dimension :: int
  embed_query :: "call list \<Rightarrow> string \<Rightarrow> string + real list"
  embed_documents :: "call list \<Rightarrow> string list \<Rightarrow> string + real list list"
  index_upsert :: "call list \<Rightarrow> vector list \<Rightarrow> string \<Rightarrow> string + unit"
  index_query ::
    "call list \<Rightarrow> real list \<Rightarrow> int \<Rightarrow> pydict option \<Rightarrow> string \<Rightarrow> string + match list"
  index_delete :: "call list \<Rightarrow> string list \<Rightarrow> string \<Rightarrow> string + unit"
  index_fetch :: "call list \<Rightarrow> string list \<Rightarrow> string \<Rightarrow> string + (string \<times> pydict) list"
  describe_index_stats :: "call list \<Rightarrow> string + index_stats"
  random_sample :: "nat \<Rightarrow> real"

type_synonym 'a action = "call list \<Rightarrow> (py_exception + 'a) \<times> call list"

definition succeed :: "'a \<Rightarrow> 'a action" where
  "succeed x tr = (Inr x, tr)"

definition raise :: "py_exception \<Rightarrow> 'a action" where
  "raise e tr = (Inl e, tr)"

definition lift :: "py_exception + 'a \<Rightarrow> 'a action" where
  "lift r tr = (r, tr)"

definition and_then :: "'a action \<Rightarrow> ('a \<Rightarrow> 'b action) \<Rightarrow> 'b action" where
  "and_then m f tr = (case m tr of (Inl e, tr') \<Rightarrow> (Inl e, tr') | (Inr x, tr') \<Rightarrow> f x tr')"

text \<open>A \<^verbatim>\<open>try\<close> block all of whose handlers raise: the handler maps the exception
  caught to the exception raised.\<close>

definition try_except :: "'a action \<Rightarrow> (py_exception \<Rightarrow> py_exception) \<Rightarrow> 'a action" where
  "try_except m handler tr =
     (case m tr of (Inl e, tr') \<Rightarrow> (Inl (handler e), tr') | (Inr x, tr') \<Rightarrow> (Inr x, tr'))"

definition answer :: "string + 'a \<Rightarrow> py_exception + 'a" where
  "answer r = (case r of Inl m \<Rightarrow> Inl (ServiceError m) | Inr x \<Rightarrow> Inr x)"

definition tool_embeddings_embed_query :: "ToolSearchProvider \<Rightarrow> string \<Rightarrow> real list action" where
  "tool_embeddings_embed_query self text tr =
     (answer (embed_query self tr text), tr @ [EmbedQuery text])"

definition tool_embeddings_embed_documents ::
  "ToolSearchProvider \<Rightarrow> string list \<Rightarrow> real list list action"
where
  "tool_embeddings_embed_documents self texts tr =
     (answer (embed_documents self tr texts), tr @ [EmbedDocuments texts])"

definition tool_index_upsert :: "ToolSearchProvider \<Rightarrow> vector list \<Rightarrow> string \<Rightarrow> unit action" where
  "tool_index_upsert self vectors namespace tr =
     (answer (index_upsert self tr vectors namespace), tr @ [IndexUpsert vectors namespace])"

definition tool_index_query ::
  "ToolSearchProvider \<Rightarrow> real list \<Rightarrow> int \<Rightarrow> pydict option \<Rightarrow> string \<Rightarrow> match list action"
where
  "tool_index_query self v k flt namespace tr =
     (answer (index_query self tr v k flt namespace), tr @ [IndexQuery v k flt namespace])"

definition tool_index_delete :: "ToolSearchProvider \<Rightarrow> string list \<Rightarrow> string \<Rightarrow> unit action" where
  "tool_index_delete self ids namespace tr =
     (answer (index_delete self tr ids namespace), tr @ [IndexDelete ids namespace])"

definition tool_index_fetch ::
  "ToolSearchProvider \<Rightarrow> string list \<Rightarrow> string \<Rightarrow> (string \<times> pydict) list action"
where
  "tool_index_fetch self ids namespace tr =
     (answer (index_fetch self tr ids namespace), tr @ [IndexFetch ids namespace])"

definition tool_index_describe_index_stats :: "ToolSearchProvider \<Rightarrow> index_stats action" where
  "tool_index_describe_index_stats self tr =
     (answer (describe_index_stats self tr), tr @ [DescribeIndexStats])"

text \<open>\<^verbatim>\<open>np.random.rand(n).tolist()\<close>: \<open>n\<close> samples, or \<^verbatim>\<open>ValueError\<close> for a negative
  \<open>n\<close>.\<close>

definition np_random_rand :: "ToolSearchProvider \<Rightarrow> int \<Rightarrow> py_exception + real list" where
  "np_random_rand self n =
     (if n < 0 then Inl (ValueError ''negative dimensions are not allowed'')
      else Inr (map (random_sample self) [0..<nat n]))"

section \<open>Provider operations\<close>

definition create_embedding_text :: "Tool \<Rightarrow> string" where
  "create_embedding_text tool =
     (let param_names = map name (parameters tool);
          param_str = (if param_names \<noteq> [] then join '', '' param_names else ''none'')
      in toolkit tool @ '' '' @ tool_name tool @ '' | '' @ description tool
           @ '' | params: '' @ param_str)"

text \<open>
  \<open>_apply_post_filters\<close>. \<^verbatim>\<open>tool_name.startswith(name_prefix)\<close> needs a string on both
  sides.
\<close>

definition str_startswith :: "pyval \<Rightarrow> pyval \<Rightarrow> py_exception + bool" where
  "str_startswith s p =
     (case s of
        PStr s' \<Rightarrow>
          (case p of
             PStr p' \<Rightarrow> Inr (startswith s' p')
           | _ \<Rightarrow> Inl (TypeError (''startswith first arg must be str or a tuple of str, not ''
                                   @ type_name p)))
      | _ \<Rightarrow> Inl (AttributeError ([CHR 0x27] @ type_name s @ [CHR 0x27]
                                    @ '' object has no attribute '' @ [CHR 0x27]
                                    @ ''startswith'' @ [CHR 0x27])))"

definition should_include :: "pydict \<Rightarrow> match \<Rightarrow> py_exception + bool" where
  "should_include filters result =
     (let name_prefix = dict_get filters ''name_prefix'' in
      if truthy name_prefix then
        str_startswith (dict_get_default (m_metadata result) ''tool_name'' (PStr [])) name_prefix
      else Inr True)"

fun post_filter_loop :: "pydict \<Rightarrow> match list \<Rightarrow> py_exception + match list" where
  "post_filter_loop filters [] = Inr []"
| "post_filter_loop filters (result # results) =
     (case should_include filters result of
        Inl e \<Rightarrow> Inl e
      | Inr keep \<Rightarrow>
          (case post_filter_loop filters results of
             Inl e \<Rightarrow> Inl e
           | Inr filtered_results \<Rightarrow>
               Inr (if keep then result # filtered_results else filtered_results)))"

definition apply_post_filters :: "match list \<Rightarrow> pydict \<Rightarrow> py_exception + match list" where
  "apply_post_filters results filters =
     (if filters = [] then Inr results else post_filter_loop filters results)"

text \<open>A loop that builds one result per element and stops at the first exception.\<close>

fun for_each :: "('a \<Rightarrow> py_exception + 'b) \<Rightarrow> 'a list \<Rightarrow> py_exception + 'b list" where
  "for_each f [] = Inr []"
| "for_each f (x # xs) =
     (case f x of
        Inl e \<Rightarrow> Inl e
      | Inr y \<Rightarrow> (case for_each f xs of Inl e \<Rightarrow> Inl e | Inr ys \<Rightarrow> Inr (y # ys)))"

subsection \<open>Writes\<close>

definition upsert_tool_handler :: "py_exception \<Rightarrow> py_exception" where
  "upsert_tool_handler e =
     (case e of
        ToolSearchError m c \<Rightarrow> e
      | _ \<Rightarrow>
          if contains ''embedding'' (lower (str_exc e)) then
            ToolSearchError (''Failed to generate embedding: '' @ str_exc e) EMBEDDING_ERROR
          else if contains ''pinecone'' (lower (str_exc e)) then
            ToolSearchError (''Pinecone operation failed: '' @ str_exc e) PINECONE_ERROR
          else ToolSearchError (''Failed to upsert tool: '' @ str_exc e) UPSERT_ERROR)"

definition upsert_tool :: "ToolSearchProvider \<Rightarrow> Tool \<Rightarrow> string \<Rightarrow> string action" where
  "upsert_tool self tool namespace =
     try_except
       (if action_id tool \<le> 0 then raise (ToolSearchError ''Invalid action_id'' VALIDATION_ERROR)
        else
          and_then (tool_embeddings_embed_query self (create_embedding_text tool)) (\<lambda>embedding.
          let metadata = build_tool_metadata (lib self) tool;
              vector_id = str_int (action_id tool)
          in
          and_then (tool_index_upsert self
                      [\<lparr>v_id = vector_id, v_values = embedding, v_metadata = metadata\<rparr>]
                      namespace) (\<lambda>u.
          succeed vector_id)))
       upsert_tool_handler"

text \<open>
  \<^verbatim>\<open>tools[i:i + batch_size] for i in range(0, len(tools), batch_size)\<close>: a zero step
  raises, a negative step gives no index at all.
\<close>

function chunks :: "nat \<Rightarrow> 'a list \<Rightarrow> 'a list list" where
  "chunks n xs = (if n = 0 \<or> xs = [] then [] else take n xs # chunks n (drop n xs))"
  by pat_completeness auto
termination
  by (relation "measure (\<lambda>(n, xs). length xs)") auto

declare chunks.simps [simp del]

definition batches :: "Tool list \<Rightarrow> int \<Rightarrow> py_exception + Tool list list" where
  "batches tools batch_size =
     (if batch_size = 0 then Inl (ValueError ''range() arg 3 must not be zero'')
      else if batch_size < 0 then Inr []
      else Inr (chunks (nat batch_size) tools))"

definition batch_vectors :: "library \<Rightarrow> Tool list \<Rightarrow> real list list \<Rightarrow> vector list" where
  "batch_vectors l batch_tools embeddings =
     map (\<lambda>(tool, embedding).
            \<lparr>v_id = str_int (action_id tool), v_values = embedding,
             v_metadata = build_tool_metadata l tool\<rparr>)
         (zip batch_tools embeddings)"

fun upsert_batches ::
  "ToolSearchProvider \<Rightarrow> string \<Rightarrow> Tool list list \<Rightarrow> string list \<Rightarrow> string list action"
where
  "upsert_batches self namespace [] vector_ids = succeed vector_ids"
| "upsert_batches self namespace (batch_tools # rest) vector_ids =
     and_then (tool_embeddings_embed_documents self (map create_embedding_text batch_tools))
       (\<lambda>embeddings.
     let vectors = batch_vectors (lib self) batch_tools embeddings in
     and_then (tool_index_upsert self vectors namespace) (\<lambda>u.
     upsert_batches self namespace rest (vector_ids @ map v_id vectors)))"

definition upsert_tools_handler :: "py_exception \<Rightarrow> py_exception" where
  "upsert_tools_handler e =
     (case e of
        ToolSearchError m c \<Rightarrow> e
      | _ \<Rightarrow>
          if contains ''embedding'' (lower (str_exc e)) then
            ToolSearchError (''Failed to generate embeddings: '' @ str_exc e) EMBEDDING_ERROR
          else if contains ''pinecone'' (lower (str_exc e)) then
            ToolSearchError (''Pinecone batch operation failed: '' @ str_exc e) PINECONE_ERROR
          else ToolSearchError (''Failed to upsert tools: '' @ str_exc e) BATCH_UPSERT_ERROR)"

definition upsert_tools ::
  "ToolSearchProvider \<Rightarrow> Tool list \<Rightarrow> string \<Rightarrow> int \<Rightarrow> string list action"
where
  "upsert_tools self tools namespace batch_size =
     try_except
       (if tools = [] then succeed []
        else
          (case find (\<lambda>tool. action_id tool \<le> 0) tools of
             Some tool \<Rightarrow>
               raise (ToolSearchError (''Invalid action_id: '' @ str_int (action_id tool))
                        VALIDATION_ERROR)
           | None \<Rightarrow>
               and_then (lift (batches tools batch_size)) (\<lambda>bs.
               upsert_batches self namespace bs [])))
       upsert_tools_handler"

definition upsert_toolkit :: "ToolSearchProvider \<Rightarrow> Toolkit \<Rightarrow> string \<Rightarrow> string list action" where
  "upsert_toolkit self tk namespace =
     try_except
       (if tk_tools tk = [] then
          raise (ToolSearchError ''Toolkit must contain at least one tool'' VALIDATION_ERROR)
        else upsert_tools self (tk_tools tk) namespace 100)
       (\<lambda>e. ToolSearchError (''Failed to upsert toolkit: '' @ str_exc e) TOOLKIT_UPSERT_ERROR)"

subsection \<open>Reads\<close>

definition vector_count_of :: "index_stats \<Rightarrow> string \<Rightarrow> int" where
  "vector_count_of stats namespace =
     (case stats of
        None \<Rightarrow> 0
      | Some namespaces \<Rightarrow>
          (case map_of namespaces namespace of
             None \<Rightarrow> 0
           | Some None \<Rightarrow> 0
           | Some (Some vector_count) \<Rightarrow> vector_count))"

definition get_toolkit_tools :: "ToolSearchProvider \<Rightarrow> int \<Rightarrow> string \<Rightarrow> Tool list action" where
  "get_toolkit_tools self tid namespace =
     try_except
       (if tid \<le> 0 then raise (ToolSearchError ''Invalid toolkit_id'' VALIDATION_ERROR)
        else
          and_then (tool_index_describe_index_stats self) (\<lambda>stats.
          let vector_count = vector_count_of stats namespace in
          if vector_count = 0 then succeed []
          else
            let pinecone_filter = build_pinecone_filter [(''toolkit_id'', PInt tid)] in
            and_then (lift (np_random_rand self (embedding_dimension self))) (\<lambda>random_vector.
            and_then (tool_index_query self random_vector (min 100 vector_count)
                        (Some pinecone_filter) namespace) (\<lambda>matches.
            lift (for_each (\<lambda>m. metadata_to_tool (lib self) (m_metadata m)) matches)))))
       (\<lambda>e. case e of
               ToolSearchError m c \<Rightarrow> e
             | _ \<Rightarrow> ToolSearchError (''Failed to get toolkit tools: '' @ str_exc e)
                      TOOLKIT_QUERY_ERROR)"

definition delete_tools :: "ToolSearchProvider \<Rightarrow> int list \<Rightarrow> string \<Rightarrow> string list action" where
  "delete_tools self action_ids namespace =
     try_except
       (let vector_ids = map str_int action_ids in
        and_then (tool_index_delete self vector_ids namespace) (\<lambda>u. succeed vector_ids))
       (\<lambda>e. ToolSearchError (''Failed to delete tools: '' @ str_exc e) BATCH_DELETE_ERROR)"

definition delete_toolkit :: "ToolSearchProvider \<Rightarrow> int \<Rightarrow> string \<Rightarrow> nat action" where
  "delete_toolkit self tid namespace =
     try_except
       (and_then (get_toolkit_tools self tid namespace) (\<lambda>tools.
        if tools = [] then succeed 0
        else
          let tool_ids = map action_id tools in
          and_then (delete_tools self tool_ids namespace) (\<lambda>u. succeed (length tool_ids))))
       (\<lambda>e. ToolSearchError (''Failed to delete toolkit: '' @ str_exc e) TOOLKIT_DELETE_ERROR)"

definition get_tool_by_id :: "ToolSearchProvider \<Rightarrow> int \<Rightarrow> string \<Rightarrow> Tool option action" where
  "get_tool_by_id self aid namespace =
     try_except
       (if aid \<le> 0 then raise (ToolSearchError ''Invalid action_id'' VALIDATION_ERROR)
        else
          let vector_id = str_int aid in
          and_then (tool_index_fetch self [vector_id] namespace) (\<lambda>vectors.
          case map_of vectors vector_id of
            Some metadata \<Rightarrow> lift (map_sum id Some (metadata_to_tool (lib self) metadata))
          | None \<Rightarrow> succeed None))
       (\<lambda>e. case e of
               ToolSearchError m c \<Rightarrow> e
             | _ \<Rightarrow> ToolSearchError (''Failed to get tool by ID: '' @ str_exc e) FETCH_ERROR)"

subsection \<open>Query\<close>

text \<open>\<^verbatim>\<open>ToolSearchResponse(...)\<close> for one match; the score is already a float.\<close>

definition ToolSearchResponse_init ::
  "library \<Rightarrow> pyval \<Rightarrow> pyval \<Rightarrow> pyval \<Rightarrow> pyval \<Rightarrow> ToolParameter list \<Rightarrow> real
     \<Rightarrow> py_exception + ToolSearchResponse"
where
  "ToolSearchResponse_init l n a k d ps sc =
     (case (validate_str l n, validate_int l a, validate_int l k, validate_str l d) of
        (Some n', Some a', Some k', Some d') \<Rightarrow>
          Inr \<lparr>r_tool_name = n', r_action_id = a', r_toolkit_id = k', r_description = d',
               r_parameters = ps, score = sc\<rparr>
      | _ \<Rightarrow>
          Inl (ValidationError (validation_text l ''ToolSearchResponse''
                 [(''tool_name'', n), (''action_id'', a), (''toolkit_id'', k),
                  (''description'', d)])))"

definition build_response ::
  "library \<Rightarrow> bool \<Rightarrow> match \<Rightarrow> py_exception + ToolSearchResponse"
where
  "build_response l semantic match_data =
     (let metadata = m_metadata match_data;
          sc = m_score match_data
      in
        (case parse_tool_parameters l (dict_get metadata ''parameters'') of
           Inl e \<Rightarrow> Inl e
         | Inr ps \<Rightarrow>
             let similarity_score = (if semantic then convert_distance_to_similarity sc else 1)
             in ToolSearchResponse_init l
                  (dict_get_default metadata ''tool_name'' (PStr []))
                  (dict_get_default metadata ''action_id'' (PInt 0))
                  (dict_get_default metadata ''toolkit_id'' (PInt 0))
                  (dict_get_default metadata ''description'' (PStr []))
                  ps similarity_score))"

definition query_tools_handler :: "py_exception \<Rightarrow> py_exception" where
  "query_tools_handler e =
     (case e of
        ToolSearchError m c \<Rightarrow> e
      | _ \<Rightarrow>
          if contains ''embedding'' (lower (str_exc e)) then
            ToolSearchError (''Failed to generate query embedding: '' @ str_exc e) EMBEDDING_ERROR
          else if contains ''pinecone'' (lower (str_exc e)) then
            ToolSearchError (''Pinecone query failed: '' @ str_exc e) PINECONE_ERROR
          else ToolSearchError (''Failed to query tools: '' @ str_exc e) QUERY_ERROR)"

text \<open>
  \<open>query_tools\<close>. \<^verbatim>\<open>request.filters or {}\<close> is the filter map, empty when there is none;
  \<^verbatim>\<open>if query_embedding:\<close> holds for a vector that is neither \<^verbatim>\<open>None\<close> nor empty.
\<close>

definition filter_only_query ::
  "ToolSearchProvider \<Rightarrow> int \<Rightarrow> pydict \<Rightarrow> string \<Rightarrow> match list action"
where
  "filter_only_query self k pinecone_filter namespace =
     and_then (lift (np_random_rand self (embedding_dimension self))) (\<lambda>random_vector.
     tool_index_query self random_vector k (Some pinecone_filter) namespace)"

definition query_tools ::
  "ToolSearchProvider \<Rightarrow> ToolSearchRequest \<Rightarrow> string \<Rightarrow> ToolSearchResponse list action"
where
  "query_tools self request namespace =
     try_except
       (let filters = (case rq_filters request of None \<Rightarrow> [] | Some f \<Rightarrow> f) in
        if rq_query request = [] \<and> filters = [] then
          raise (ToolSearchError ''Either query or filters must be provided'' VALIDATION_ERROR)
        else
          and_then (if rq_query request \<noteq> []
                    then and_then (tool_embeddings_embed_query self (rq_query request))
                           (\<lambda>v. succeed (Some v))
                    else succeed None) (\<lambda>query_embedding.
          let pinecone_filter = build_pinecone_filter filters;
              semantic = (case query_embedding of None \<Rightarrow> False | Some v \<Rightarrow> v \<noteq> [])
          in
          and_then (case query_embedding of
                      Some v \<Rightarrow>
                        if v \<noteq> [] then
                          tool_index_query self v (rq_top_k request)
                            (if pinecone_filter \<noteq> [] then Some pinecone_filter else None)
                            namespace
                        else filter_only_query self (rq_top_k request) pinecone_filter namespace
                    | None \<Rightarrow>
                        filter_only_query self (rq_top_k request) pinecone_filter namespace)
            (\<lambda>query_response.
          and_then (lift (apply_post_filters query_response filters)) (\<lambda>matches.
          lift (for_each (build_response (lib self) semantic) matches)))))
       query_tools_handler"

text \<open>
  Names for what the theorems below speak about: the probe vector that stands in for a
  query embedding, the matches that the post-filter keeps, and the records that the write
  path stores.
\<close>

definition probe_vector :: "ToolSearchProvider \<Rightarrow> real list" where
  "probe_vector self = map (random_sample self) [0..<nat (embedding_dimension self)]"

definition kept :: "pydict \<Rightarrow> match \<Rightarrow> bool" where
  "kept filters m = (should_include filters m = Inr True)"

definition stored_by_write_path :: "library \<Rightarrow> match list \<Rightarrow> bool" where
  "stored_by_write_path l ms =
     list_all (\<lambda>m. m_metadata m \<in> range (build_tool_metadata l)) ms"

text \<open>The parameters text of a stored record is readable when \<^verbatim>\<open>json.loads\<close> answers it
  with a value or with an exception that the decoder catches.\<close>

definition parameters_readable :: "library \<Rightarrow> pydict \<Rightarrow> bool" where
  "parameters_readable l metadata =
     (case dict_get metadata ''parameters'' of
        PStr s \<Rightarrow> (case json_loads l s of Inl e \<Rightarrow> caught_by_parse e | Inr v \<Rightarrow> True)
      | _ \<Rightarrow> True)"

definition all_readable :: "library \<Rightarrow> match list \<Rightarrow> bool" where
  "all_readable l ms = list_all (\<lambda>m. parameters_readable l (m_metadata m)) ms"

fun is_upsert :: "call \<Rightarrow> bool" where
  "is_upsert (IndexUpsert vs ns) = True"
| "is_upsert c = False"

section \<open>Example data\<close>

text \<open>
  The toolkit that the module's own demonstration upserts, a library and a provider to
  run the operations with, and two variations of the provider: one whose index refuses
  the third write, one whose namespace holds 150 tools.
\<close>

definition add_liquidity :: Tool where
  "add_liquidity =
     \<lparr>action_id = 1001, toolkit_id = 79, tool_name = ''addLiquidity'',
      description = ''Provide liquidity to Pendle pools on EVM chains'',
      parameters =
        [\<lparr>name = ''address'', param_type = ''string'', required = True, param_description = None\<rparr>,
         \<lparr>name = ''amount'', param_type = ''number'', required = True, param_description = None\<rparr>,
         \<lparr>name = ''chain'', param_type = ''string'', required = True, param_description = None\<rparr>],
      toolkit = ''Pendle''\<rparr>"

definition remove_liquidity :: Tool where
  "remove_liquidity =
     \<lparr>action_id = 1002, toolkit_id = 79, tool_name = ''removeLiquidity'',
      description = ''Remove liquidity from Pendle pools'',
      parameters =
        [\<lparr>name = ''address'', param_type = ''string'', required = True, param_description = None\<rparr>,
         \<lparr>name = ''amount'', param_type = ''number'', required = True, param_description = None\<rparr>],
      toolkit = ''Pendle''\<rparr>"

definition numbered_tool :: "nat \<Rightarrow> Tool" where
  "numbered_tool i =
     \<lparr>action_id = int i + 1, toolkit_id = 79, tool_name = ''tool'', description = ''a tool'',
      parameters = [], toolkit = ''Pendle''\<rparr>"

definition many_tools :: "Tool list" where
  "many_tools = map numbered_tool [0..<250]"

text \<open>A JSON writer for values whose strings need no escaping, and a reader that knows
  the documents of the example.\<close>

fun example_json_dumps :: "pyval \<Rightarrow> string" where
  "example_json_dumps PNone = ''null''"
| "example_json_dumps (PBool b) = (if b then ''true'' else ''false'')"
| "example_json_dumps (PInt i) = str_int i"
| "example_json_dumps (PStr s) = [CHR 0x22] @ s @ [CHR 0x22]"
| "example_json_dumps (PList xs) = ''['' @ join '', '' (map example_json_dumps xs) @ '']''"
| "example_json_dumps (PDict d) =
     ''{'' @ join '', '' (map (\<lambda>kv. [CHR 0x22] @ fst kv @ [CHR 0x22] @ '': ''
                                    @ example_json_dumps (snd kv)) d) @ ''}''"

definition example_json_loads :: "string \<Rightarrow> py_exception + pyval" where
  "example_json_loads s =
     (case find (\<lambda>v. example_json_dumps v = s)
             [PList [],
              PList (map model_dump (parameters add_liquidity)),
              PList (map model_dump (parameters remove_liquidity))] of
        None \<Rightarrow> Inl (JSONDecodeError ''Expecting value'')
      | Some v \<Rightarrow> Inr v)"

definition example_lib :: library where
  "example_lib =
     \<lparr>json_dumps = example_json_dumps, json_loads = example_json_loads,
      lax_int = (\<lambda>v. None), lax_str = (\<lambda>v. None), lax_bool = (\<lambda>v. None),
      validation_text = (\<lambda>model args. ''validation error for '' @ model)\<rparr>"

definition example_provider :: ToolSearchProvider where
  "example_provider =
     \<lparr>lib = example_lib,
      embedding_dimension = 1536,
      embed_query = (\<lambda>tr text. Inr [1, 0, 0]),
      embed_documents = (\<lambda>tr texts. Inr (map (\<lambda>text. [1, 0, 0]) texts)),
      index_upsert = (\<lambda>tr vectors namespace. Inr ()),
      index_query = (\<lambda>tr v k flt namespace.
         Inr [\<lparr>m_metadata = build_tool_metadata example_lib add_liquidity, m_score = 31 / 100\<rparr>,
              \<lparr>m_metadata = build_tool_metadata example_lib remove_liquidity, m_score = 1 / 5\<rparr>]),
      index_delete = (\<lambda>tr ids namespace. Inr ()),
      index_fetch = (\<lambda>tr ids namespace. Inr []),
      describe_index_stats = (\<lambda>tr. Inr (Some [(''test'', Some 2)])),
      random_sample = (\<lambda>i. 1 / 2)\<rparr>"

definition flaky_provider :: ToolSearchProvider where
  "flaky_provider =
     example_provider
       \<lparr>index_upsert := (\<lambda>tr vectors namespace.
          if length (filter is_upsert tr) = 2 then Inl ''connection reset'' else Inr ())\<rparr>"

definition crowded_provider :: ToolSearchProvider where
  "crowded_provider =
     example_provider
       \<lparr>describe_index_stats := (\<lambda>tr. Inr (Some [(''test'', Some 150)])),
        index_query := (\<lambda>tr v k flt namespace.
          Inr (map (\<lambda>i. \<lparr>m_metadata = build_tool_metadata example_lib (numbered_tool i),
                           m_score = 0\<rparr>) [0..<nat k]))\<rparr>"

text \<open>The filter-only request of the demonstration: every tool of toolkit 79.\<close>

definition toolkit_request :: ToolSearchRequest where
  "toolkit_request = \<lparr>rq_query = [], rq_top_k = 5, rq_filters = Some [(''toolkit_id'', PList [PInt 79])]\<rparr>"

section \<open>Auxiliary facts\<close>

text \<open>Powers of two and the binary exponent.\<close>

lemma pow2_pos: "0 < (2::real) powi k"
  by (simp add: zero_less_power_int)

lemma pow2_Suc: "(2::real) powi (k + 1) = 2 * 2 powi k"
  by (simp add: power_int_add)

lemma pow2_pred: "(2::real) powi (k - 1) = 2 powi k / 2"
  by (simp add: power_int_diff)

lemma pow2_mono: "m \<le> n \<Longrightarrow> (2::real) powi m \<le> 2 powi n"
proof -
  assume "m \<le> n"
  then have "(2::real) powi n = 2 powi m * 2 ^ nat (n - m)"
    using power_int_add[of "2::real" m "n - m"] by (simp add: power_int_def)
  moreover have "(2::real) powi m * 1 \<le> 2 powi m * 2 ^ nat (n - m)"
    by (intro mult_left_mono) (simp_all add: zero_le_power_int)
  ultimately show ?thesis by simp
qed

lemma pow2_less_imp: "(2::real) powi m < 2 powi n \<Longrightarrow> m < n"
  using pow2_mono[of n m] by (cases "m < n") auto

lemma expo_bounds: "0 < x \<Longrightarrow> 2 powi (expo x) \<le> x \<and> x < 2 powi (expo x + 1)"
proof (induction x rule: expo.induct)
  case (1 x)
  show ?case
  proof (cases "2 \<le> x")
    case True
    then have e: "expo x = expo (x / 2) + 1" by (simp add: expo.simps[of x])
    from "1.IH"(1)[OF True] "1.prems"
    have "2 powi (expo (x / 2)) \<le> x / 2 \<and> x / 2 < 2 powi (expo (x / 2) + 1)" by simp
    then show ?thesis by (simp add: e power_int_add)
  next
    case False
    show ?thesis
    proof (cases "x < 1")
      case True
      then have e: "expo x = expo (x * 2) - 1"
        using False "1.prems" by (simp add: expo.simps[of x])
      from "1.IH"(2)[OF False] True "1.prems"
      have "2 powi (expo (x * 2)) \<le> x * 2 \<and> x * 2 < 2 powi (expo (x * 2) + 1)" by simp
      then show ?thesis by (simp add: e power_int_diff power_int_add)
    next
      case f: False
      then have "expo x = 0" using False by (simp add: expo.simps[of x])
      then show ?thesis using False f by simp
    qed
  qed
qed

lemma expo_pow2: "expo (2 powi k) = k"
proof -
  let ?e = "expo (2 powi k)"
  from expo_bounds[OF pow2_pos[of k]]
  have lo: "2 powi ?e \<le> (2::real) powi k" and hi: "(2::real) powi k < 2 powi (?e + 1)"
    by simp_all
  have "k < ?e + 1" using hi by (rule pow2_less_imp)
  moreover have "\<not> k < ?e"
  proof
    assume "k < ?e"
    then have "(2::real) powi (k + 1) \<le> 2 powi ?e" by (intro pow2_mono) simp
    then have "2 * (2::real) powi k \<le> 2 powi ?e" by (simp add: pow2_Suc)
    then show False using lo pow2_pos[of k] by linarith
  qed
  ultimately show ?thesis by linarith
qed

text \<open>Rounding to a double.\<close>

lemma rhe_lower: "of_int a \<le> z \<Longrightarrow> a \<le> round_half_even z"
proof -
  assume "of_int a \<le> z"
  then have "a \<le> \<lfloor>z\<rfloor>" by (simp add: le_floor_iff)
  then show ?thesis by (auto simp: round_half_even_def Let_def)
qed

lemma rhe_upper: "z \<le> of_int b \<Longrightarrow> round_half_even z \<le> b"
proof (cases "\<lfloor>z\<rfloor> = b")
  case True
  assume "z \<le> of_int b"
  then have "z - of_int \<lfloor>z\<rfloor> = 0" using True of_int_floor_le[of z] by linarith
  then show ?thesis using True by (simp add: round_half_even_def Let_def)
next
  case False
  assume "z \<le> of_int b"
  then have "\<lfloor>z\<rfloor> \<le> b" by (simp add: floor_le_iff)
  then show ?thesis using False by (auto simp: round_half_even_def Let_def)
qed

lemma rhe_int: "round_half_even (of_int k) = k"
  by (simp add: round_half_even_def)

lemma rhe_near: "\<bar>of_int (round_half_even z) - z\<bar> \<le> 1 / 2"
proof -
  have "of_int \<lfloor>z\<rfloor> \<le> z" "z < of_int \<lfloor>z\<rfloor> + 1" by linarith+
  then show ?thesis by (auto simp: round_half_even_def Let_def)
qed

lemma round_to_double_nonneg: "0 \<le> x \<Longrightarrow> 0 \<le> round_to_double x"
proof -
  assume x: "0 \<le> x"
  have "0 \<le> round_half_even (x / 2 powi k)" for k
    using rhe_lower[of 0 "x / 2 powi k"] x pow2_pos[of k] by simp
  then show ?thesis
    using pow2_pos by (simp add: round_to_double_def Let_def zero_le_power_int)
qed

lemma round_to_double_nonpos: "x \<le> 0 \<Longrightarrow> round_to_double x \<le> 0"
proof -
  assume x: "x \<le> 0"
  have "round_half_even (x / 2 powi k) \<le> 0" for k
    using rhe_upper[of "x / 2 powi k" 0] x pow2_pos[of k] by (simp add: divide_nonpos_pos)
  then show ?thesis
    using pow2_pos by (simp add: round_to_double_def Let_def mult_le_0_iff zero_le_power_int)
qed

lemma scaled_bounds:
  assumes "0 < x"
  shows "2 ^ 52 \<le> x / 2 powi (expo x - 52)" "x / 2 powi (expo x - 52) \<le> 2 ^ 53"
proof -
  define c :: real where "c = 2 ^ 52"
  have c: "0 < c" by (simp add: c_def)
  have u: "(2::real) powi (expo x - 52) = 2 powi expo x / c"
    by (simp add: power_int_diff c_def)
  have b: "2 powi expo x \<le> x" "x < 2 * 2 powi expo x"
    using expo_bounds[OF assms] by (simp_all add: pow2_Suc)
  have p: "0 < (2::real) powi expo x" by (rule pow2_pos)
  have e: "x / 2 powi (expo x - 52) = c * (x / 2 powi expo x)"
    by (simp add: u)
  have r: "1 \<le> x / 2 powi expo x" "x / 2 powi expo x \<le> 2"
    using b p by (simp_all add: pos_le_divide_eq pos_divide_le_eq mult.commute)
  have "c * 1 \<le> c * (x / 2 powi expo x)" "c * (x / 2 powi expo x) \<le> c * 2"
    using r c by (intro mult_left_mono; simp)+
  moreover have "c * 2 = 2 ^ 53" by (simp add: c_def)
  ultimately show "2 ^ 52 \<le> x / 2 powi (expo x - 52)" "x / 2 powi (expo x - 52) \<le> 2 ^ 53"
    unfolding e by (simp_all add: c_def)
qed

lemma round_to_double_bounds:
  assumes "0 < x"
  shows "2 powi expo x \<le> round_to_double x" "round_to_double x \<le> 2 powi (expo x + 1)"
proof -
  define c :: real where "c = 2 ^ 52"
  define u :: real where "u = 2 powi (expo x - 52)"
  define m where "m = round_half_even (x / u)"
  have u: "u = 2 powi expo x / c" by (simp add: power_int_diff c_def u_def)
  have f: "round_to_double x = of_int m * u"
    using assms by (simp add: round_to_double_def Let_def u_def m_def)
  have "2 ^ 52 \<le> m" "m \<le> 2 ^ 53"
    using scaled_bounds[OF assms] rhe_lower[of "2 ^ 52" "x / u"] rhe_upper[of "x / u" "2 ^ 53"]
    by (simp_all add: u_def m_def)
  then have "(of_int (2 ^ 52) :: real) \<le> of_int m" "(of_int m :: real) \<le> of_int (2 ^ 53)"
    by (simp_all only: of_int_le_iff)
  then have m: "c \<le> of_int m" "of_int m \<le> c * 2"
    by (simp_all add: c_def)
  have p: "0 \<le> u" using pow2_pos[of "expo x - 52"] by (simp add: u_def)
  have "c * u \<le> of_int m * u" "of_int m * u \<le> (c * 2) * u"
    using m p by (intro mult_right_mono; simp)+
  moreover have "c * u = 2 powi expo x" by (simp add: u c_def)
  moreover have "(c * 2) * u = 2 powi (expo x + 1)" by (simp add: u pow2_Suc c_def)
  ultimately show "2 powi expo x \<le> round_to_double x" "round_to_double x \<le> 2 powi (expo x + 1)"
    by (simp_all add: f)
qed

lemma round_to_double_pow2: "round_to_double (2 powi k) = 2 powi k"
proof -
  have "(2::real) powi k / 2 powi (k - 52) = of_int (2 ^ 52)"
    by (simp add: power_int_diff)
  then have "round_half_even ((2::real) powi k / 2 powi (k - 52)) = 2 ^ 52"
    using rhe_int[of "2 ^ 52"] by simp
  then show ?thesis
    using pow2_pos[of k] by (simp add: round_to_double_def Let_def expo_pow2 power_int_diff)
qed

lemma round_to_double_ge_pow2: "2 powi k \<le> x \<Longrightarrow> 2 powi k \<le> round_to_double x"
proof -
  assume a: "2 powi k \<le> x"
  then have x: "0 < x" using pow2_pos[of k] by linarith
  have "(2::real) powi k < 2 powi (expo x + 1)" using a expo_bounds[OF x] by linarith
  then have "k \<le> expo x" using pow2_less_imp[of k "expo x + 1"] by simp
  then have "(2::real) powi k \<le> 2 powi expo x" by (rule pow2_mono)
  then show ?thesis using round_to_double_bounds(1)[OF x] by linarith
qed

lemma round_to_double_le_pow2: "x \<le> 2 powi k \<Longrightarrow> round_to_double x \<le> 2 powi k"
proof (cases "0 < x")
  case False
  then have "round_to_double x \<le> 0" by (simp add: round_to_double_nonpos)
  then show ?thesis using pow2_pos[of k] by linarith
next
  case True
  assume a: "x \<le> 2 powi k"
  show ?thesis
  proof (cases "x = 2 powi k")
    case True
    then show ?thesis by (simp add: round_to_double_pow2)
  next
    case False
    then have "x < 2 powi k" using a by simp
    then have "(2::real) powi expo x < 2 powi k" using expo_bounds[OF True] by linarith
    then have "expo x + 1 \<le> k" using pow2_less_imp[of "expo x" k] by simp
    then have "(2::real) powi (expo x + 1) \<le> 2 powi k" by (rule pow2_mono)
    then show ?thesis using round_to_double_bounds(2)[OF True] by linarith
  qed
qed

lemma round_to_double_values:
  "round_to_double 0 = 0" "round_to_double 1 = 1" "round_to_double 2 = 2"
  "round_to_double (1 / 2) = 1 / 2"
  using round_to_double_pow2[of 0] round_to_double_pow2[of 1] round_to_double_pow2[of "- 1"]
  by (simp_all add: round_to_double_def power_int_minus)

text \<open>The normalised score.\<close>

lemma clamp_eq: "max 0 (min 1 x) = spec_clamp x 0 1"
  by (auto simp: spec_clamp_def)

lemma py_round_unit:
  assumes "0 \<le> y" "y \<le> 1"
  shows "0 \<le> py_round y 4 \<and> py_round y 4 \<le> 1"
proof -
  have a: "of_int 0 \<le> y * 10 ^ 4" using assms by simp
  have b: "y * 10 ^ 4 \<le> of_int 10000" using assms by simp
  have k: "0 \<le> round_half_even (y * 10 ^ 4)" "round_half_even (y * 10 ^ 4) \<le> 10000"
    using rhe_lower[OF a] rhe_upper[OF b] by simp_all
  then have "0 \<le> (of_int (round_half_even (y * 10 ^ 4)) :: real) / 10 ^ 4"
    "(of_int (round_half_even (y * 10 ^ 4)) :: real) / 10 ^ 4 \<le> 2 powi 0"
    by simp_all
  then show ?thesis
    using round_to_double_nonneg round_to_double_le_pow2[of _ 0] by (simp add: py_round_def)
qed

lemma py_round_nearest:
  "\<exists>k. py_round y 4 = round_to_double (of_int k / 10000) \<and> \<bar>of_int k / 10000 - y\<bar> \<le> 1 / 20000"
proof -
  have "\<bar>of_int (round_half_even (y * 10 ^ 4)) - y * 10 ^ 4\<bar> \<le> 1 / 2" by (rule rhe_near)
  then have "\<bar>of_int (round_half_even (y * 10 ^ 4)) / 10000 - y\<bar> \<le> 1 / 20000"
    by (simp add: abs_le_iff field_simps)
  then show ?thesis by (intro exI[of _ "round_half_even (y * 10 ^ 4)"]) (simp add: py_round_def)
qed

lemma similarity_one: "convert_distance_to_similarity 1 = 1"
  by (simp add: convert_distance_to_similarity_def float_add_def float_div_def py_round_def
        round_to_double_values round_half_even_def)

lemma similarity_zero: "convert_distance_to_similarity 0 = 1 / 2"
  by (simp add: convert_distance_to_similarity_def float_add_def float_div_def py_round_def
        round_to_double_values round_half_even_def Let_def)

lemma similarity_minus_one: "convert_distance_to_similarity (- 1) = 0"
  by (simp add: convert_distance_to_similarity_def float_add_def float_div_def py_round_def
        round_to_double_values round_half_even_def)

lemma similarity_above: "1 < raw \<Longrightarrow> convert_distance_to_similarity raw = 1"
proof -
  assume "1 < raw"
  then have "2 powi 1 \<le> raw + 1" by simp
  then have "2 powi 1 \<le> float_add raw 1"
    unfolding float_add_def by (rule round_to_double_ge_pow2)
  then have "2 powi 0 \<le> float_add raw 1 / 2" by simp
  then have "2 powi 0 \<le> float_div (float_add raw 1) 2"
    unfolding float_div_def by (rule round_to_double_ge_pow2)
  then have "max 0 (min 1 (float_div (float_add raw 1) 2)) = 1" by simp
  then show ?thesis
    by (simp add: convert_distance_to_similarity_def py_round_def round_to_double_values
          round_half_even_def)
qed

lemma similarity_below: "raw < - 1 \<Longrightarrow> convert_distance_to_similarity raw = 0"
proof -
  assume "raw < - 1"
  then have "raw + 1 \<le> 0" by simp
  then have "float_add raw 1 \<le> 0"
    unfolding float_add_def by (rule round_to_double_nonpos)
  then have "float_add raw 1 / 2 \<le> 0" by simp
  then have "float_div (float_add raw 1) 2 \<le> 0"
    unfolding float_div_def by (rule round_to_double_nonpos)
  then have "max 0 (min 1 (float_div (float_add raw 1) 2)) = 0" by simp
  then show ?thesis
    by (simp add: convert_distance_to_similarity_def py_round_def round_to_double_values
          round_half_even_def)
qed

text \<open>Decoding parameters: what is raised inside the \<^verbatim>\<open>try\<close> block is always caught.\<close>

lemma ToolParameter_init_caught: "ToolParameter_init l v = Inl e \<Longrightarrow> caught_by_parse e"
  by (auto simp: ToolParameter_init_def split: pyval.splits option.splits)

lemma parse_loop_caught: "parse_loop l xs ps = (qs, Some e) \<Longrightarrow> caught_by_parse e"
  by (induction xs arbitrary: ps) (auto split: sum.splits dest: ToolParameter_init_caught)

lemma py_iter_caught: "py_iter v = Inl e \<Longrightarrow> caught_by_parse e"
  by (auto simp: py_iter_def split: pyval.splits)

lemma parse_tool_parameters_returns:
  "(\<And>s e. v = PStr s \<Longrightarrow> json_loads l s = Inl e \<Longrightarrow> caught_by_parse e)
   \<Longrightarrow> \<exists>ps. parse_tool_parameters l v = Inr ps"
  by (auto simp: parse_tool_parameters_def Let_def
      split: pyval.splits option.splits sum.splits prod.splits
      dest: parse_loop_caught py_iter_caught)

lemma parse_tool_parameters_propagates:
  "s \<noteq> [] \<Longrightarrow> json_loads l s = Inl e \<Longrightarrow> \<not> caught_by_parse e
   \<Longrightarrow> parse_tool_parameters l (PStr s) = Inl e"
  by (simp add: parse_tool_parameters_def)

lemma parse_tool_parameters_readable:
  "parameters_readable l metadata
   \<Longrightarrow> \<exists>ps. parse_tool_parameters l (dict_get metadata ''parameters'') = Inr ps"
  by (rule parse_tool_parameters_returns) (simp add: parameters_readable_def)

lemma ToolParameter_init_model_dump: "ToolParameter_init l (model_dump p) = Inr p"
  by (cases "param_description p")
     (simp_all add: ToolParameter_init_def model_dump_def validate_str_def validate_bool_def
        validate_opt_str_def dict_get_def)

lemma parse_loop_model_dump: "parse_loop l (map model_dump ps) acc = (acc @ ps, None)"
  by (induction ps arbitrary: acc) (simp_all add: ToolParameter_init_model_dump)

lemma parse_tool_parameters_empty: "parse_tool_parameters l (PStr []) = Inr []"
  by (simp add: parse_tool_parameters_def)

lemma parse_tool_parameters_invalid:
  "json_loads l s = Inl e \<Longrightarrow> caught_by_parse e \<Longrightarrow> parse_tool_parameters l (PStr s) = Inr []"
  by (simp add: parse_tool_parameters_def)

lemma parse_tool_parameters_clean:
  "s \<noteq> [] \<Longrightarrow> json_loads l s = Inr (PList (map model_dump ps))
     \<Longrightarrow> parse_tool_parameters l (PStr s) = Inr ps"
  by (simp add: parse_tool_parameters_def py_iter_def parse_loop_model_dump)

lemma metadata_to_tool_encoded:
  "parse_tool_parameters l (PStr (json_dumps l (PList (map model_dump (parameters t))))) = Inr ps
   \<Longrightarrow> metadata_to_tool l (build_tool_metadata l t) = Inr (t\<lparr>parameters := ps\<rparr>)"
  by (simp add: metadata_to_tool_def build_tool_metadata_def dict_get_def dict_get_default_def
        Tool_init_def validate_int_def validate_str_def)

lemma find_nonpositive:
  "\<exists>t\<in>set tools. action_id t \<le> 0 \<Longrightarrow> \<exists>t. find (\<lambda>tool. action_id tool \<le> 0) tools = Some t"
  by (induction tools) auto

text \<open>Loops over matches.\<close>

lemma post_filter_loop_filter:
  "post_filter_loop f ms = Inr ks \<Longrightarrow> ks = filter (kept f) ms"
  by (induction ms arbitrary: ks) (auto simp: kept_def split: sum.splits if_splits)

lemma for_each_list_all2:
  "for_each f xs = Inr ys \<Longrightarrow> list_all2 (\<lambda>x y. f x = Inr y) xs ys"
  by (induction xs arbitrary: ys) (auto split: sum.splits)

lemma for_each_succeeds:
  "\<forall>x\<in>set xs. \<exists>y. f x = Inr y \<Longrightarrow> \<exists>ys. for_each f xs = Inr ys"
  by (induction xs) (auto split: sum.splits)

lemma post_filter_loop_succeeds:
  "\<forall>m\<in>set ms. \<exists>b. should_include f m = Inr b \<Longrightarrow> \<exists>ks. post_filter_loop f ms = Inr ks"
  by (induction ms) (auto split: sum.splits)

lemma build_response_filter_only_score:
  "build_response l False m = Inr r \<Longrightarrow> score r = 1"
  by (auto simp: build_response_def Let_def ToolSearchResponse_init_def
      split: sum.splits option.splits)

lemma build_response_stored:
  assumes "m_metadata m \<in> range (build_tool_metadata l)"
    and "parameters_readable l (m_metadata m)"
  shows "\<exists>r. build_response l sem m = Inr r"
proof -
  obtain t where t: "m_metadata m = build_tool_metadata l t" using assms(1) by auto
  obtain ps where "parse_tool_parameters l (dict_get (m_metadata m) ''parameters'') = Inr ps"
    using parse_tool_parameters_readable[OF assms(2)] by blast
  then show ?thesis
    by (simp add: build_response_def Let_def t ToolSearchResponse_init_def
        build_tool_metadata_def dict_get_def dict_get_default_def validate_int_def
        validate_str_def)
qed

lemma should_include_stored:
  assumes "m_metadata m \<in> range (build_tool_metadata l)"
    and "\<not> truthy (dict_get f ''name_prefix'') \<or> (\<exists>p. dict_get f ''name_prefix'' = PStr p)"
  shows "\<exists>b. should_include f m = Inr b"
  using assms
  by (auto simp: should_include_def Let_def str_startswith_def build_tool_metadata_def
      dict_get_default_def)

lemma filter_only_query_run:
  "0 \<le> embedding_dimension self \<Longrightarrow>
   filter_only_query self k pf ns tr =
     (answer (index_query self tr (probe_vector self) k (Some pf) ns),
      tr @ [IndexQuery (probe_vector self) k (Some pf) ns])"
  by (simp add: filter_only_query_def and_then_def lift_def np_random_rand_def probe_vector_def
      tool_index_query_def)

lemma query_tools_filter_only:
  assumes "rq_query request = []" "rq_filters request = Some filters" "filters \<noteq> []"
    "0 \<le> embedding_dimension self"
  shows "query_tools self request ns tr =
     (case index_query self tr (probe_vector self) (rq_top_k request)
             (Some (build_pinecone_filter filters)) ns of
        Inl m \<Rightarrow> Inl (query_tools_handler (ServiceError m))
      | Inr ms \<Rightarrow>
          (case post_filter_loop filters ms of
             Inl e \<Rightarrow> Inl (query_tools_handler e)
           | Inr ks \<Rightarrow>
               (case for_each (build_response (lib self) False) ks of
                  Inl e \<Rightarrow> Inl (query_tools_handler e)
                | Inr rs \<Rightarrow> Inr rs)),
      tr @ [IndexQuery (probe_vector self) (rq_top_k request)
              (Some (build_pinecone_filter filters)) ns])"
  using assms
  by (simp add: query_tools_def try_except_def and_then_def succeed_def filter_only_query_run
      answer_def lift_def apply_post_filters_def split: sum.splits)

lemma toolkit_id_filter:
  "0 < tid \<Longrightarrow> build_pinecone_filter [(''toolkit_id'', PInt tid)]
     = [(''toolkit_id'', PDict [(''$in'', PList [PInt tid])])]"
  by (simp add: build_pinecone_filter_def add_membership_def dict_get_def in_clause_def)

lemma metadata_to_tool_stored:
  assumes "m_metadata m \<in> range (build_tool_metadata l)"
    and "parameters_readable l (m_metadata m)"
  shows "\<exists>t. metadata_to_tool l (m_metadata m) = Inr t"
proof -
  obtain t where t: "m_metadata m = build_tool_metadata l t" using assms(1) by auto
  obtain ps where "parse_tool_parameters l (dict_get (m_metadata m) ''parameters'') = Inr ps"
    using parse_tool_parameters_readable[OF assms(2)] by blast
  then show ?thesis
    by (simp add: metadata_to_tool_def t Tool_init_def build_tool_metadata_def dict_get_def
        dict_get_default_def validate_int_def validate_str_def)
qed

lemma get_toolkit_tools_empty_namespace:
  assumes "0 < tid" "describe_index_stats self tr = Inr stats" "vector_count_of stats ns = 0"
  shows "get_toolkit_tools self tid ns tr = (Inr [], tr @ [DescribeIndexStats])"
  using assms
  by (simp add: get_toolkit_tools_def try_except_def and_then_def succeed_def
      tool_index_describe_index_stats_def answer_def)

lemma get_toolkit_tools_run:
  assumes "0 < tid" "describe_index_stats self tr = Inr stats" "vector_count_of stats ns \<noteq> 0"
    "0 \<le> embedding_dimension self"
  shows "get_toolkit_tools self tid ns tr =
     (case index_query self (tr @ [DescribeIndexStats]) (probe_vector self)
             (min 100 (vector_count_of stats ns))
             (Some [(''toolkit_id'', PDict [(''$in'', PList [PInt tid])])]) ns of
        Inl m \<Rightarrow> Inl (ToolSearchError (''Failed to get toolkit tools: '' @ m) TOOLKIT_QUERY_ERROR)
      | Inr ms \<Rightarrow>
          (case for_each (\<lambda>m. metadata_to_tool (lib self) (m_metadata m)) ms of
             Inl e \<Rightarrow> Inl (case e of ToolSearchError m c \<Rightarrow> e
                            | _ \<Rightarrow> ToolSearchError (''Failed to get toolkit tools: '' @ str_exc e)
                                    TOOLKIT_QUERY_ERROR)
           | Inr ts \<Rightarrow> Inr ts),
      tr @ [DescribeIndexStats,
            IndexQuery (probe_vector self) (min 100 (vector_count_of stats ns))
              (Some [(''toolkit_id'', PDict [(''$in'', PList [PInt tid])])]) ns])"
  using assms
  by (simp add: get_toolkit_tools_def try_except_def and_then_def succeed_def lift_def
      tool_index_describe_index_stats_def tool_index_query_def answer_def toolkit_id_filter
      np_random_rand_def probe_vector_def Let_def split: sum.splits)

text \<open>The batch loop on 250 tools with batches of 100.\<close>

lemma chunks_250:
  "length xs = 250 \<Longrightarrow> chunks 100 xs = [take 100 xs, take 100 (drop 100 xs), drop 200 xs]"
proof -
  assume l: "length xs = 250"
  have a: "xs \<noteq> []" "drop 100 xs \<noteq> []" "drop 200 xs \<noteq> []" using l by auto
  have d: "drop 100 (drop 200 xs) = []" using l by simp
  have t: "take 100 (drop 200 xs) = drop 200 xs" using l by simp
  show ?thesis
    using a d t
    by (simp add: chunks.simps[of 100 xs] chunks.simps[of 100 "drop 100 xs"]
        chunks.simps[of 100 "drop 200 xs"] chunks.simps[of 100 "[]"])
qed

lemma find_all_positive:
  "\<forall>t\<in>set tools. 0 < action_id t \<Longrightarrow> find (\<lambda>tool. action_id tool \<le> 0) tools = None"
  by (induction tools) auto

lemma batch_vectors_ids:
  "length vs = length ts \<Longrightarrow>
   map v_id (batch_vectors l ts vs) = map (\<lambda>t. str_int (action_id t)) ts"
  by (induction ts vs rule: list_induct2') (simp_all add: batch_vectors_def)

lemma batch_vectors_length: "length (batch_vectors l ts vs) = min (length ts) (length vs)"
  by (simp add: batch_vectors_def)

lemma upsert_tools_handler_kind:
  "\<exists>c. upsert_tools_handler (ServiceError msg)
         = ToolSearchError ((if c = EMBEDDING_ERROR then ''Failed to generate embeddings: ''
                             else if c = PINECONE_ERROR then ''Pinecone batch operation failed: ''
                             else ''Failed to upsert tools: '') @ msg) c
       \<and> c \<in> {EMBEDDING_ERROR, PINECONE_ERROR, BATCH_UPSERT_ERROR}"
  by (simp add: upsert_tools_handler_def)

lemma upsert_tools_three_chunks:
  assumes len: "length tools = 250" and pos: "\<forall>t\<in>set tools. 0 < action_id t"
    and c: "c1 = take 100 tools" "c2 = take 100 (drop 100 tools)" "c3 = drop 200 tools"
    and e1: "embed_documents self tr (map create_embedding_text c1) = Inr v1"
    and t1: "tr1 = tr @ [EmbedDocuments (map create_embedding_text c1)]"
    and u1: "index_upsert self tr1 (batch_vectors (lib self) c1 v1) ns = Inr ()"
    and t2: "tr2 = tr1 @ [IndexUpsert (batch_vectors (lib self) c1 v1) ns]"
    and e2: "embed_documents self tr2 (map create_embedding_text c2) = Inr v2"
    and t3: "tr3 = tr2 @ [EmbedDocuments (map create_embedding_text c2)]"
    and u2: "index_upsert self tr3 (batch_vectors (lib self) c2 v2) ns = Inr ()"
    and t4: "tr4 = tr3 @ [IndexUpsert (batch_vectors (lib self) c2 v2) ns]"
    and e3: "embed_documents self tr4 (map create_embedding_text c3) = Inr v3"
    and t5: "tr5 = tr4 @ [EmbedDocuments (map create_embedding_text c3)]"
    and u3: "index_upsert self tr5 (batch_vectors (lib self) c3 v3) ns = Inl msg"
  shows "upsert_tools self tools ns 100 tr
     = (Inl (upsert_tools_handler (ServiceError msg)),
        tr @ [EmbedDocuments (map create_embedding_text c1),
              IndexUpsert (batch_vectors (lib self) c1 v1) ns,
              EmbedDocuments (map create_embedding_text c2),
              IndexUpsert (batch_vectors (lib self) c2 v2) ns,
              EmbedDocuments (map create_embedding_text c3),
              IndexUpsert (batch_vectors (lib self) c3 v3) ns])"
proof -
  have ne: "tools \<noteq> []" using len by auto
  have b: "batches tools 100 = Inr [c1, c2, c3]"
    by (simp add: batches_def chunks_250[OF len] c)
  have s1: "tool_embeddings_embed_documents self (map create_embedding_text c1) tr = (Inr v1, tr1)"
    by (simp add: tool_embeddings_embed_documents_def e1 t1 answer_def)
  have s2: "tool_index_upsert self (batch_vectors (lib self) c1 v1) ns tr1 = (Inr (), tr2)"
    by (simp add: tool_index_upsert_def u1 t2 answer_def)
  have s3: "tool_embeddings_embed_documents self (map create_embedding_text c2) tr2 = (Inr v2, tr3)"
    by (simp add: tool_embeddings_embed_documents_def e2 t3 answer_def)
  have s4: "tool_index_upsert self (batch_vectors (lib self) c2 v2) ns tr3 = (Inr (), tr4)"
    by (simp add: tool_index_upsert_def u2 t4 answer_def)
  have s5: "tool_embeddings_embed_documents self (map create_embedding_text c3) tr4 = (Inr v3, tr5)"
    by (simp add: tool_embeddings_embed_documents_def e3 t5 answer_def)
  have s6: "tool_index_upsert self (batch_vectors (lib self) c3 v3) ns tr5
              = (Inl (ServiceError msg), tr5 @ [IndexUpsert (batch_vectors (lib self) c3 v3) ns])"
    by (simp add: tool_index_upsert_def u3 answer_def)
  have r: "upsert_batches self ns [c1, c2, c3] [] tr
             = (Inl (ServiceError msg), tr5 @ [IndexUpsert (batch_vectors (lib self) c3 v3) ns])"
    by (simp add: and_then_def Let_def s1 s2 s3 s4 s5 s6)
  have "upsert_tools self tools ns 100 tr
          = (Inl (upsert_tools_handler (ServiceError msg)),
             tr5 @ [IndexUpsert (batch_vectors (lib self) c3 v3) ns])"
    by (simp add: upsert_tools_def try_except_def ne find_all_positive[OF pos] and_then_def
        lift_def b r del: upsert_batches.simps)
  then show ?thesis by (simp add: t1 t2 t3 t4 t5)
qed

lemma many_tools_length: "length many_tools = 250"
  by (simp add: many_tools_def)

lemma many_tools_positive: "\<forall>t\<in>set many_tools. 0 < action_id t"
  by (auto simp: many_tools_def numbered_tool_def simp del: upt_rec_numeral)

lemma connection_reset_kind:
  "upsert_tools_handler (ServiceError ''connection reset'')
     = ToolSearchError ''Failed to upsert tools: connection reset'' BATCH_UPSERT_ERROR"
  by (simp add: upsert_tools_handler_def lower_def lower_char_def)

lemma flaky_run:
  "upsert_tools flaky_provider many_tools ''test'' 100 []
   = (Inl (ToolSearchError ''Failed to upsert tools: connection reset'' BATCH_UPSERT_ERROR),
      [EmbedDocuments (map create_embedding_text (take 100 many_tools)),
       IndexUpsert (batch_vectors example_lib (take 100 many_tools)
                      (map (\<lambda>text. [1, 0, 0]) (map create_embedding_text (take 100 many_tools)))) ''test'',
       EmbedDocuments (map create_embedding_text (take 100 (drop 100 many_tools))),
       IndexUpsert (batch_vectors example_lib (take 100 (drop 100 many_tools))
                      (map (\<lambda>text. [1, 0, 0]) (map create_embedding_text (take 100 (drop 100 many_tools))))) ''test'',
       EmbedDocuments (map create_embedding_text (drop 200 many_tools)),
       IndexUpsert (batch_vectors example_lib (drop 200 many_tools)
                      (map (\<lambda>text. [1, 0, 0]) (map create_embedding_text (drop 200 many_tools)))) ''test''])"
proof -
  have l: "lib flaky_provider = example_lib"
    by (simp add: flaky_provider_def example_provider_def)
  have e: "embed_documents flaky_provider tr texts = Inr (map (\<lambda>text. [1, 0, 0]) texts)" for tr texts
    by (simp add: flaky_provider_def example_provider_def)
  have u: "index_upsert flaky_provider tr vs ns
             = (if length (filter is_upsert tr) = 2 then Inl ''connection reset'' else Inr ())" for tr vs ns
    by (simp add: flaky_provider_def example_provider_def)
  show ?thesis
    using upsert_tools_three_chunks[where self = flaky_provider and ns = "''test''"
        and msg = "''connection reset''" and tr = "[]",
        OF many_tools_length many_tools_positive refl refl refl e refl _ refl e refl _ refl e refl]
    by (simp add: u l connection_reset_kind)
qed

text \<open>The example data.\<close>

lemma example_lib_readable: "parameters_readable example_lib metadata"
  by (simp add: parameters_readable_def example_lib_def example_json_loads_def
        split: pyval.splits option.splits)

lemma example_parse_add:
  "parse_tool_parameters example_lib (PStr (example_json_dumps (PList (map model_dump (parameters add_liquidity)))))
    = Inr (parameters add_liquidity)"
  by (rule parse_tool_parameters_clean) (simp_all add: example_lib_def example_json_loads_def add_liquidity_def model_dump_def)

lemma example_parse_remove:
  "parse_tool_parameters example_lib (PStr (example_json_dumps (PList (map model_dump (parameters remove_liquidity)))))
    = Inr (parameters remove_liquidity)"
  by (rule parse_tool_parameters_clean) (simp_all add: example_lib_def example_json_loads_def add_liquidity_def remove_liquidity_def model_dump_def str_int_def)

lemma example_filter: "build_pinecone_filter [(''toolkit_id'', PList [PInt 79])]
   = [(''toolkit_id'', PDict [(''$in'', PList [PInt 79])])]"
  by (simp add: build_pinecone_filter_def add_membership_def dict_get_def in_clause_def)

lemma example_query_result:
  "fst (query_tools example_provider toolkit_request ''test'' [])
   = Inr [\<lparr>r_tool_name = ''addLiquidity'', r_action_id = 1001, r_toolkit_id = 79,
           r_description = ''Provide liquidity to Pendle pools on EVM chains'',
           r_parameters = parameters add_liquidity, score = 1\<rparr>,
          \<lparr>r_tool_name = ''removeLiquidity'', r_action_id = 1002, r_toolkit_id = 79,
           r_description = ''Remove liquidity from Pendle pools'',
           r_parameters = parameters remove_liquidity, score = 1\<rparr>]"
proof -
  have a: "build_response example_lib False
       \<lparr>m_metadata = build_tool_metadata example_lib add_liquidity, m_score = 31 / 100\<rparr>
     = Inr \<lparr>r_tool_name = ''addLiquidity'', r_action_id = 1001, r_toolkit_id = 79,
           r_description = ''Provide liquidity to Pendle pools on EVM chains'',
           r_parameters = parameters add_liquidity, score = 1\<rparr>"
    using example_parse_add
    by (simp add: build_response_def build_tool_metadata_def dict_get_def dict_get_default_def
        ToolSearchResponse_init_def validate_str_def validate_int_def example_lib_def)
       (simp add: add_liquidity_def)
  have b: "build_response example_lib False
       \<lparr>m_metadata = build_tool_metadata example_lib remove_liquidity, m_score = 1 / 5\<rparr>
     = Inr \<lparr>r_tool_name = ''removeLiquidity'', r_action_id = 1002, r_toolkit_id = 79,
           r_description = ''Remove liquidity from Pendle pools'',
           r_parameters = parameters remove_liquidity, score = 1\<rparr>"
    using example_parse_remove
    by (simp add: build_response_def build_tool_metadata_def dict_get_def dict_get_default_def
        ToolSearchResponse_init_def validate_str_def validate_int_def example_lib_def)
       (simp add: remove_liquidity_def)
  have q: "rq_query toolkit_request = []" "rq_filters toolkit_request = Some [(''toolkit_id'', PList [PInt 79])]"
    "0 \<le> embedding_dimension example_provider"
    by (simp_all add: toolkit_request_def example_provider_def)
  have s: "should_include [(''toolkit_id'', PList [PInt 79])] m = Inr True" for m
    by (simp add: should_include_def dict_get_def)
  show ?thesis
    unfolding query_tools_filter_only[OF q(1) q(2) _ q(3), simplified]
    by (simp add: example_provider_def s a b)
qed

section \<open>Properties of the filter translator\<close>

text \<open>
  Claim C1. Every supported key of the filter map should contribute its membership clause,
  and a \<open>required_params\<close> list of several elements should add one clause per element, in
  order, without losing the clauses of the other keys. The translator does not do that:
  at the second element of the list it replaces the whole filter by a two-element
  conjunction. With \<open>tool_name\<close> and two required parameters the \<open>tool_name\<close> clause is gone;
  with four required parameters only the last two are left.
\<close>

theorem build_pinecone_filter_loses_clauses:
  "build_pinecone_filter
     [(''tool_name'', PStr ''swap''), (''required_params'', PList [PStr ''a'', PStr ''b''])]
   = [(''$and'',
       PList [PDict [(''required_params'', PDict [(''$in'', PList [PStr ''a''])])],
              PDict [(''required_params'', PDict [(''$in'', PList [PStr ''b''])])]])]
   \<and> build_pinecone_filter
       [(''required_params'', PList [PStr ''a'', PStr ''b'', PStr ''c'', PStr ''d''])]
   = [(''$and'',
       PList [PDict [(''required_params'', PDict [(''$in'', PList [PStr ''c''])])],
              PDict [(''required_params'', PDict [(''$in'', PList [PStr ''d''])])]])]"
  by (simp add: build_pinecone_filter_def add_membership_def dict_get_def
        add_required_param_def in_clause_def)

section \<open>Properties of the metadata codec\<close>

text \<open>
  Claim C2. Take the encoded metadata of a tool; its parameters entry is the text that
  \<^verbatim>\<open>json.dumps\<close> gives for the dumped parameter list.
  \<^item> If the text is not empty and \<^verbatim>\<open>json.loads\<close> reads it back as the dumped value,
    decoding returns the original tool, parameter sequence included.
  \<^item> If the text is empty, or \<^verbatim>\<open>json.loads\<close> raises on it an exception that the
    decoder catches (such as \<^verbatim>\<open>JSONDecodeError\<close>), decoding returns the original tool
    with an empty parameter list.
  \<^item> Whenever the text is empty or \<^verbatim>\<open>json.loads\<close> raises on it nothing but what the
    decoder catches, decoding returns a tool equal to the original in \<open>action_id\<close>,
    \<open>toolkit_id\<close>, \<open>tool_name\<close>, \<open>description\<close> and \<open>toolkit\<close>.
  \<^item> The one way for decoding to fail is an exception of \<^verbatim>\<open>json.loads\<close> that the
    decoder does not catch, which then leaves \<open>metadata_to_tool\<close>.
\<close>

theorem metadata_round_trip:
  "(json_dumps l (PList (map model_dump (parameters t))) \<noteq> []
      \<and> json_loads l (json_dumps l (PList (map model_dump (parameters t))))
          = Inr (PList (map model_dump (parameters t)))
    \<longrightarrow> metadata_to_tool l (build_tool_metadata l t) = Inr t)
   \<and> (json_dumps l (PList (map model_dump (parameters t))) = []
        \<or> (\<exists>e. json_loads l (json_dumps l (PList (map model_dump (parameters t)))) = Inl e
                \<and> caught_by_parse e)
      \<longrightarrow> metadata_to_tool l (build_tool_metadata l t) = Inr (t\<lparr>parameters := []\<rparr>))
   \<and> (json_dumps l (PList (map model_dump (parameters t))) = []
        \<or> (\<forall>e. json_loads l (json_dumps l (PList (map model_dump (parameters t)))) = Inl e
                \<longrightarrow> caught_by_parse e)
      \<longrightarrow> (\<exists>t'. metadata_to_tool l (build_tool_metadata l t) = Inr t'
              \<and> action_id t' = action_id t \<and> toolkit_id t' = toolkit_id t
              \<and> tool_name t' = tool_name t \<and> description t' = description t
              \<and> toolkit t' = toolkit t))
   \<and> (\<forall>e. json_dumps l (PList (map model_dump (parameters t))) \<noteq> []
            \<and> json_loads l (json_dumps l (PList (map model_dump (parameters t)))) = Inl e
            \<and> \<not> caught_by_parse e
          \<longrightarrow> metadata_to_tool l (build_tool_metadata l t) = Inl e)"
proof (intro conjI impI allI)
  let ?s = "json_dumps l (PList (map model_dump (parameters t)))"
  note enc = metadata_to_tool_encoded[of l t]
  {
    assume "?s \<noteq> [] \<and> json_loads l ?s = Inr (PList (map model_dump (parameters t)))"
    then have "parse_tool_parameters l (PStr ?s) = Inr (parameters t)"
      using parse_tool_parameters_clean[of ?s l "parameters t"] by simp
    from enc[OF this] show "metadata_to_tool l (build_tool_metadata l t) = Inr t" by simp
  }
  {
    assume "?s = [] \<or> (\<exists>e. json_loads l ?s = Inl e \<and> caught_by_parse e)"
    then have "parse_tool_parameters l (PStr ?s) = Inr []"
      using parse_tool_parameters_empty[of l] parse_tool_parameters_invalid[of l ?s] by auto
    from enc[OF this]
    show "metadata_to_tool l (build_tool_metadata l t) = Inr (t\<lparr>parameters := []\<rparr>)" .
  }
  {
    assume a: "?s = [] \<or> (\<forall>e. json_loads l ?s = Inl e \<longrightarrow> caught_by_parse e)"
    have "\<exists>ps. parse_tool_parameters l (PStr ?s) = Inr ps"
    proof (cases "?s = []")
      case True
      then show ?thesis using parse_tool_parameters_empty[of l] by simp
    next
      case False
      with a show ?thesis by (intro parse_tool_parameters_returns) auto
    qed
    then obtain ps where "parse_tool_parameters l (PStr ?s) = Inr ps" by blast
    from enc[OF this]
    show "\<exists>t'. metadata_to_tool l (build_tool_metadata l t) = Inr t'
              \<and> action_id t' = action_id t \<and> toolkit_id t' = toolkit_id t
              \<and> tool_name t' = tool_name t \<and> description t' = description t
              \<and> toolkit t' = toolkit t"
      by simp
  }
  {
    fix e
    assume "?s \<noteq> [] \<and> json_loads l ?s = Inl e \<and> \<not> caught_by_parse e"
    then have "parse_tool_parameters l (PStr ?s) = Inl e"
      using parse_tool_parameters_propagates[of ?s l e] by simp
    then show "metadata_to_tool l (build_tool_metadata l t) = Inl e"
      by (simp add: metadata_to_tool_def build_tool_metadata_def dict_get_def)
  }
qed

theorem metadata_round_trip_witness:
  "json_dumps example_lib (PList (map model_dump (parameters add_liquidity))) \<noteq> []
   \<and> json_loads example_lib
         (json_dumps example_lib (PList (map model_dump (parameters add_liquidity))))
       = Inr (PList (map model_dump (parameters add_liquidity)))
   \<and> metadata_to_tool example_lib (build_tool_metadata example_lib add_liquidity)
       = Inr add_liquidity
   \<and> json_loads example_lib
         (json_dumps example_lib
            (PList (map model_dump (parameters (remove_liquidity\<lparr>parameters := [\<lparr>name = ''pool'',
               param_type = ''string'', required = False, param_description = None\<rparr>]\<rparr>)))))
       = Inl (JSONDecodeError ''Expecting value'')
   \<and> metadata_to_tool example_lib
         (build_tool_metadata example_lib
            (remove_liquidity\<lparr>parameters := [\<lparr>name = ''pool'', param_type = ''string'',
               required = False, param_description = None\<rparr>]\<rparr>))
       = Inr (remove_liquidity\<lparr>parameters := []\<rparr>)"
proof -
  let ?t = "remove_liquidity\<lparr>parameters := [\<lparr>name = ''pool'', param_type = ''string'',
               required = False, param_description = None\<rparr>]\<rparr>"
  have d: "json_dumps example_lib (PList (map model_dump (parameters add_liquidity))) \<noteq> []"
    by (simp add: example_lib_def)
  have r: "json_loads example_lib
             (json_dumps example_lib (PList (map model_dump (parameters add_liquidity))))
           = Inr (PList (map model_dump (parameters add_liquidity)))"
    by (simp add: example_lib_def example_json_loads_def add_liquidity_def model_dump_def)
  have f: "json_loads example_lib
             (json_dumps example_lib (PList (map model_dump (parameters ?t))))
           = Inl (JSONDecodeError ''Expecting value'')"
    by (simp add: example_lib_def example_json_loads_def add_liquidity_def
          remove_liquidity_def model_dump_def)
  from metadata_round_trip[of example_lib add_liquidity] metadata_round_trip[of example_lib ?t]
    d r f
  show ?thesis by auto
qed

text \<open>
  Claim C5. Decoding a stored parameters value never raises, and a malformed encoding
  should give the empty list. Decoding returns for every list, and for every text on
  which \<^verbatim>\<open>json.loads\<close> raises nothing but what the \<^verbatim>\<open>except\<close> clause catches
  (\<open>parse_tool_parameters_returns\<close>); an exception of another class, such as the
  \<^verbatim>\<open>RecursionError\<close> of a text nested too deeply, leaves the function
  (\<open>parse_tool_parameters_propagates\<close>). A malformed encoding does not give the empty
  list either: the entries built before the malformed one stay in the result. Here
  the second entry lacks the required fields \<open>type\<close> and \<open>required\<close> (or is not a
  mapping at all), and the first entry is returned.
\<close>

theorem parse_tool_parameters_keeps_parsed_prefix:
  "parse_tool_parameters l
     (PList [PDict [(''name'', PStr ''a''), (''type'', PStr ''string''),
                    (''required'', PBool True)],
             PDict [(''name'', PStr ''b'')]])
   = Inr [\<lparr>name = ''a'', param_type = ''string'', required = True, param_description = None\<rparr>]
   \<and> parse_tool_parameters l
     (PList [PDict [(''name'', PStr ''a''), (''type'', PStr ''string''),
                    (''required'', PBool True)],
             PInt 1])
   = Inr [\<lparr>name = ''a'', param_type = ''string'', required = True, param_description = None\<rparr>]"
  by (simp add: parse_tool_parameters_def ToolParameter_init_def validate_str_def
        validate_bool_def validate_opt_str_def dict_get_def)

section \<open>Error kinds of the toolkit operations\<close>

text \<open>
  Claim C3. A toolkit without tools should make \<open>upsert_toolkit\<close> fail with a validation
  error, and an error that already has a kind should leave \<open>upsert_toolkit\<close> and
  \<open>delete_toolkit\<close> with that kind. Both operations catch every exception, their own
  included, and raise it again under the toolkit-level kind: the validation error of an
  empty toolkit arrives as \<open>TOOLKIT_UPSERT_ERROR\<close>, the one of a non-positive
  \<open>toolkit_id\<close> as \<open>TOOLKIT_DELETE_ERROR\<close>.
\<close>

theorem toolkit_operations_rewrap_validation_error:
  "upsert_toolkit self \<lparr>tk_toolkit_id = i, tk_name = n, tk_description = d, tk_tools = []\<rparr> ns tr
     = (Inl (ToolSearchError
               ''Failed to upsert toolkit: Toolkit must contain at least one tool''
               TOOLKIT_UPSERT_ERROR), tr)
   \<and> delete_toolkit self 0 ns tr
     = (Inl (ToolSearchError ''Failed to delete toolkit: Invalid toolkit_id''
               TOOLKIT_DELETE_ERROR), tr)"
  by (simp add: upsert_toolkit_def delete_toolkit_def get_toolkit_tools_def try_except_def
        raise_def and_then_def)

section \<open>Batch writes\<close>

text \<open>
  Claim C4, as the code has it. \<open>upsert_tools\<close> on 250 valid tools with batch size 100,
  where the embedding service answers every chunk (one vector per text for the first two)
  and the index accepts the first two writes and refuses the third with text \<open>msg\<close>:
  the calls issued are the embedding and the write of the first chunk, of the second and
  of the third, in that order, and nothing after the refused write (no later chunk, no
  delete). The two accepted writes carry 100 records each, whose ids are the
  \<open>action_id\<close>s of the first 200 tools in input order. The caller gets a
  \<open>ToolSearchError\<close> of kind \<open>EMBEDDING_ERROR\<close>, \<open>PINECONE_ERROR\<close> or
  \<open>BATCH_UPSERT_ERROR\<close>, chosen by the text, whose message ends with \<open>msg\<close>. The error
  is all the caller gets: it holds no ids.
\<close>

theorem upsert_tools_third_write_fails:
  assumes "length tools = 250" and "\<forall>t\<in>set tools. 0 < action_id t"
    and "c1 = take 100 tools" and "c2 = take 100 (drop 100 tools)" and "c3 = drop 200 tools"
    and "embed_documents self tr (map create_embedding_text c1) = Inr v1" and "length v1 = 100"
    and "tr1 = tr @ [EmbedDocuments (map create_embedding_text c1)]"
    and "index_upsert self tr1 (batch_vectors (lib self) c1 v1) ns = Inr ()"
    and "tr2 = tr1 @ [IndexUpsert (batch_vectors (lib self) c1 v1) ns]"
    and "embed_documents self tr2 (map create_embedding_text c2) = Inr v2" and "length v2 = 100"
    and "tr3 = tr2 @ [EmbedDocuments (map create_embedding_text c2)]"
    and "index_upsert self tr3 (batch_vectors (lib self) c2 v2) ns = Inr ()"
    and "tr4 = tr3 @ [IndexUpsert (batch_vectors (lib self) c2 v2) ns]"
    and "embed_documents self tr4 (map create_embedding_text c3) = Inr v3"
    and "tr5 = tr4 @ [EmbedDocuments (map create_embedding_text c3)]"
    and "index_upsert self tr5 (batch_vectors (lib self) c3 v3) ns = Inl msg"
  shows
    "upsert_tools self tools ns 100 tr
       = (Inl (upsert_tools_handler (ServiceError msg)),
          tr @ [EmbedDocuments (map create_embedding_text c1),
                IndexUpsert (batch_vectors (lib self) c1 v1) ns,
                EmbedDocuments (map create_embedding_text c2),
                IndexUpsert (batch_vectors (lib self) c2 v2) ns,
                EmbedDocuments (map create_embedding_text c3),
                IndexUpsert (batch_vectors (lib self) c3 v3) ns])
     \<and> (\<exists>c. upsert_tools_handler (ServiceError msg)
               = ToolSearchError
                   ((if c = EMBEDDING_ERROR then ''Failed to generate embeddings: ''
                     else if c = PINECONE_ERROR then ''Pinecone batch operation failed: ''
                     else ''Failed to upsert tools: '') @ msg) c
             \<and> c \<in> {EMBEDDING_ERROR, PINECONE_ERROR, BATCH_UPSERT_ERROR})
     \<and> length (batch_vectors (lib self) c1 v1) = 100
     \<and> length (batch_vectors (lib self) c2 v2) = 100
     \<and> map v_id (batch_vectors (lib self) c1 v1 @ batch_vectors (lib self) c2 v2)
         = map (\<lambda>t. str_int (action_id t)) (take 200 tools)"
proof -
  have l1: "length c1 = 100" and l2: "length c2 = 100"
    using assms(1,3,4) by simp_all
  have t: "take 200 tools = c1 @ c2"
    using take_add[of 100 100 tools] assms(3,4) by simp
  have ids: "map v_id (batch_vectors (lib self) c1 v1 @ batch_vectors (lib self) c2 v2)
         = map (\<lambda>t. str_int (action_id t)) (take 200 tools)"
    using l1 l2 assms(7,12) by (simp add: t batch_vectors_ids)
  have len: "length (batch_vectors (lib self) c1 v1) = 100"
    "length (batch_vectors (lib self) c2 v2) = 100"
    using l1 l2 assms(7,12) by (simp_all add: batch_vectors_length)
  have run: "upsert_tools self tools ns 100 tr
       = (Inl (upsert_tools_handler (ServiceError msg)),
          tr @ [EmbedDocuments (map create_embedding_text c1),
                IndexUpsert (batch_vectors (lib self) c1 v1) ns,
                EmbedDocuments (map create_embedding_text c2),
                IndexUpsert (batch_vectors (lib self) c2 v2) ns,
                EmbedDocuments (map create_embedding_text c3),
                IndexUpsert (batch_vectors (lib self) c3 v3) ns])"
    by (rule upsert_tools_three_chunks[OF assms(1-6) assms(8-11) assms(13-18)])
  show ?thesis
    using run upsert_tools_handler_kind[of msg] len ids by blast
qed

theorem upsert_tools_third_write_fails_witness:
  "length many_tools = 250
   \<and> list_all (\<lambda>t. 0 < action_id t) many_tools
   \<and> index_upsert flaky_provider
        [EmbedDocuments (map create_embedding_text (take 100 many_tools)),
         IndexUpsert (batch_vectors example_lib (take 100 many_tools)
                        (map (\<lambda>text. [1, 0, 0])
                           (map create_embedding_text (take 100 many_tools)))) ''test'',
         EmbedDocuments (map create_embedding_text (take 100 (drop 100 many_tools))),
         IndexUpsert (batch_vectors example_lib (take 100 (drop 100 many_tools))
                        (map (\<lambda>text. [1, 0, 0])
                           (map create_embedding_text (take 100 (drop 100 many_tools))))) ''test'',
         EmbedDocuments (map create_embedding_text (drop 200 many_tools))]
        (batch_vectors example_lib (drop 200 many_tools)
           (map (\<lambda>text. [1, 0, 0]) (map create_embedding_text (drop 200 many_tools))))
        ''test''
       = Inl ''connection reset''
   \<and> fst (upsert_tools flaky_provider many_tools ''test'' 100 [])
       = Inl (ToolSearchError ''Failed to upsert tools: connection reset'' BATCH_UPSERT_ERROR)
   \<and> length (snd (upsert_tools flaky_provider many_tools ''test'' 100 [])) = 6
   \<and> map v_id
        (batch_vectors example_lib (take 100 many_tools)
           (map (\<lambda>text. [1, 0, 0]) (map create_embedding_text (take 100 many_tools)))
         @ batch_vectors example_lib (take 100 (drop 100 many_tools))
             (map (\<lambda>text. [1, 0, 0])
                (map create_embedding_text (take 100 (drop 100 many_tools)))))
       = map (\<lambda>t. str_int (action_id t)) (take 200 many_tools)"
proof -
  have l: "lib flaky_provider = example_lib"
    by (simp add: flaky_provider_def example_provider_def)
  have e: "embed_documents flaky_provider tr texts = Inr (map (\<lambda>text. [1, 0, 0]) texts)"
    for tr texts
    by (simp add: flaky_provider_def example_provider_def)
  have u: "index_upsert flaky_provider tr vs ns
             = (if length (filter is_upsert tr) = 2 then Inl ''connection reset'' else Inr ())"
    for tr vs ns
    by (simp add: flaky_provider_def example_provider_def)
  have n: "length (map (\<lambda>text. [1, 0, 0 :: real]) (map create_embedding_text (take 100 many_tools))) = 100"
    "length (map (\<lambda>text. [1, 0, 0 :: real]) (map create_embedding_text (take 100 (drop 100 many_tools)))) = 100"
    by (simp_all add: many_tools_length)
  have p: "list_all (\<lambda>t. 0 < action_id t) many_tools"
    using many_tools_positive by (simp add: list_all_iff)
  from upsert_tools_third_write_fails[where self = flaky_provider and ns = "''test''" and msg = "''connection reset''"
        and tr = "[]",
        OF many_tools_length many_tools_positive refl refl refl e n(1) refl _ refl e n(2) refl _
          refl e refl]
  show ?thesis
    by (simp add: u l connection_reset_kind many_tools_length p)
qed

text \<open>
  The claim as the specification words it also has the 200 committed ids reported to the
  caller. On the example with a third write that fails, the caller receives the error
  and no list of ids.
\<close>

theorem partial_failure_reports_no_ids:
  "length many_tools = 250
   \<and> fst (upsert_tools flaky_provider many_tools ''test'' 100 [])
       = Inl (ToolSearchError ''Failed to upsert tools: connection reset'' BATCH_UPSERT_ERROR)
   \<and> fst (upsert_tools flaky_provider many_tools ''test'' 100 [])
       \<noteq> Inr (map (\<lambda>t. str_int (action_id t)) (take 200 many_tools))
   \<and> length (filter is_upsert (snd (upsert_tools flaky_provider many_tools ''test'' 100 []))) = 3"
  by (simp add: flaky_run many_tools_length)

section \<open>Filter-only query\<close>

text \<open>
  Claim C6. A request with empty query text and a non-empty filter map (and a provider of
  non-negative dimension) issues exactly one call, an index query whose vector is the
  probe vector, of the configured dimension, with the request's \<open>top_k\<close> and the
  translated filter. If the operation returns results, each has score 1, and they are
  the responses built, in order, from the matches of the index that the post-filter
  keeps. It does return results when the index answers with records stored by the write
  path whose parameters text is readable, and \<open>name_prefix\<close> is absent, falsy or a
  string.
\<close>

theorem filter_only_query_scores_one:
  assumes "rq_query request = []" and "rq_filters request = Some filters" and "filters \<noteq> []"
    and "0 \<le> embedding_dimension self"
  shows
    "length (probe_vector self) = nat (embedding_dimension self)
     \<and> snd (query_tools self request ns tr)
         = tr @ [IndexQuery (probe_vector self) (rq_top_k request)
                   (Some (build_pinecone_filter filters)) ns]
     \<and> (\<forall>rs. fst (query_tools self request ns tr) = Inr rs \<longrightarrow>
           (\<forall>r\<in>set rs. score r = 1)
           \<and> (\<exists>ms. index_query self tr (probe_vector self) (rq_top_k request)
                       (Some (build_pinecone_filter filters)) ns = Inr ms
                  \<and> list_all2 (\<lambda>m r. build_response (lib self) False m = Inr r)
                       (filter (kept filters) ms) rs))
     \<and> (\<forall>ms. index_query self tr (probe_vector self) (rq_top_k request)
                 (Some (build_pinecone_filter filters)) ns = Inr ms
              \<and> stored_by_write_path (lib self) ms
              \<and> all_readable (lib self) ms
              \<and> (\<not> truthy (dict_get filters ''name_prefix'')
                   \<or> (\<exists>p. dict_get filters ''name_prefix'' = PStr p))
           \<longrightarrow> (\<exists>rs. fst (query_tools self request ns tr) = Inr rs))"
proof (intro conjI allI impI)
  note run = query_tools_filter_only[OF assms, of ns tr]
  show "length (probe_vector self) = nat (embedding_dimension self)"
    by (simp add: probe_vector_def)
  show "snd (query_tools self request ns tr)
         = tr @ [IndexQuery (probe_vector self) (rq_top_k request)
                   (Some (build_pinecone_filter filters)) ns]"
    by (simp add: run)
  {
    fix rs assume ok: "fst (query_tools self request ns tr) = Inr rs"
    from ok obtain ms ks where
      ms: "index_query self tr (probe_vector self) (rq_top_k request)
             (Some (build_pinecone_filter filters)) ns = Inr ms"
      and ks: "post_filter_loop filters ms = Inr ks"
      and rs: "for_each (build_response (lib self) False) ks = Inr rs"
      by (auto simp: run split: sum.splits)
    have k: "ks = filter (kept filters) ms" by (rule post_filter_loop_filter[OF ks])
    have l2: "list_all2 (\<lambda>m r. build_response (lib self) False m = Inr r) ks rs"
      by (rule for_each_list_all2[OF rs])
    show "\<forall>r\<in>set rs. score r = 1"
    proof
      fix r assume "r \<in> set rs"
      then obtain m where "build_response (lib self) False m = Inr r"
        using l2 by (auto simp: list_all2_conv_all_nth in_set_conv_nth)
      then show "score r = 1" by (rule build_response_filter_only_score)
    qed
    show "\<exists>ms. index_query self tr (probe_vector self) (rq_top_k request)
                       (Some (build_pinecone_filter filters)) ns = Inr ms
                  \<and> list_all2 (\<lambda>m r. build_response (lib self) False m = Inr r)
                       (filter (kept filters) ms) rs"
      using ms l2 k by auto
  }
  {
    fix ms
    assume h: "index_query self tr (probe_vector self) (rq_top_k request)
                 (Some (build_pinecone_filter filters)) ns = Inr ms
              \<and> stored_by_write_path (lib self) ms
              \<and> all_readable (lib self) ms
              \<and> (\<not> truthy (dict_get filters ''name_prefix'')
                   \<or> (\<exists>p. dict_get filters ''name_prefix'' = PStr p))"
    then have st: "\<forall>m\<in>set ms. m_metadata m \<in> range (build_tool_metadata (lib self))"
      and rd: "\<forall>m\<in>set ms. parameters_readable (lib self) (m_metadata m)"
      by (simp_all add: stored_by_write_path_def all_readable_def list_all_iff)
    have "\<forall>m\<in>set ms. \<exists>b. should_include filters m = Inr b"
      using st h should_include_stored by blast
    then obtain ks where ks: "post_filter_loop filters ms = Inr ks"
      using post_filter_loop_succeeds by blast
    have "set ks \<subseteq> set ms" using post_filter_loop_filter[OF ks] by auto
    then have "\<forall>m\<in>set ks. \<exists>r. build_response (lib self) False m = Inr r"
      using st rd build_response_stored by blast
    then obtain rs where "for_each (build_response (lib self) False) ks = Inr rs"
      using for_each_succeeds by blast
    then show "\<exists>rs. fst (query_tools self request ns tr) = Inr rs"
      using h ks by (simp add: run)
  }
qed

theorem filter_only_query_scores_one_witness:
  "rq_query toolkit_request = []
   \<and> rq_filters toolkit_request = Some [(''toolkit_id'', PList [PInt 79])]
   \<and> [(''toolkit_id'', PList [PInt 79])] \<noteq> ([] :: pydict)
   \<and> 0 \<le> embedding_dimension example_provider
   \<and> length (probe_vector example_provider) = 1536
   \<and> snd (query_tools example_provider toolkit_request ''test'' [])
       = [IndexQuery (probe_vector example_provider) 5
            (Some [(''toolkit_id'', PDict [(''$in'', PList [PInt 79])])]) ''test'']
   \<and> stored_by_write_path (lib example_provider)
         [\<lparr>m_metadata = build_tool_metadata example_lib add_liquidity, m_score = 31 / 100\<rparr>,
          \<lparr>m_metadata = build_tool_metadata example_lib remove_liquidity, m_score = 1 / 5\<rparr>]
   \<and> all_readable (lib example_provider)
         [\<lparr>m_metadata = build_tool_metadata example_lib add_liquidity, m_score = 31 / 100\<rparr>,
          \<lparr>m_metadata = build_tool_metadata example_lib remove_liquidity, m_score = 1 / 5\<rparr>]
   \<and> \<not> truthy (dict_get [(''toolkit_id'', PList [PInt 79])] ''name_prefix'')
   \<and> (\<exists>rs. fst (query_tools example_provider toolkit_request ''test'' []) = Inr rs
          \<and> map r_action_id rs = [1001, 1002] \<and> map score rs = [1, 1])"
proof -
  have w: "stored_by_write_path (lib example_provider)
         [\<lparr>m_metadata = build_tool_metadata example_lib add_liquidity, m_score = 31 / 100\<rparr>,
          \<lparr>m_metadata = build_tool_metadata example_lib remove_liquidity, m_score = 1 / 5\<rparr>]"
    "\<not> truthy (dict_get [(''toolkit_id'', PList [PInt 79])] ''name_prefix'')"
    by (simp_all add: stored_by_write_path_def example_provider_def dict_get_def)
  have a: "all_readable (lib example_provider)
         [\<lparr>m_metadata = build_tool_metadata example_lib add_liquidity, m_score = 31 / 100\<rparr>,
          \<lparr>m_metadata = build_tool_metadata example_lib remove_liquidity, m_score = 1 / 5\<rparr>]"
    by (simp add: all_readable_def example_provider_def example_lib_readable)
  have q: "rq_query toolkit_request = []"
    "rq_filters toolkit_request = Some [(''toolkit_id'', PList [PInt 79])]"
    "[(''toolkit_id'', PList [PInt 79])] \<noteq> ([] :: pydict)"
    "0 \<le> embedding_dimension example_provider"
    by (simp_all add: toolkit_request_def example_provider_def)
  have k: "rq_top_k toolkit_request = 5" "embedding_dimension example_provider = 1536"
    by (simp_all add: toolkit_request_def example_provider_def)
  from filter_only_query_scores_one[OF q, of "''test''" "[]"] q w a example_query_result
  show ?thesis by (simp add: example_filter k)
qed

section \<open>Properties of score normalisation\<close>

text \<open>
  Claim C7. For every raw similarity (a finite double) the normalised score is
  \<open>clamp((raw + 1) / 2, 0, 1)\<close> rounded to 4 decimal places, the sum and the quotient
  being those of double arithmetic: it is the double nearest to a multiple of
  \<open>1/10000\<close> that lies within half of \<open>1/10000\<close> of the clamped value. Raw 1 gives 1,
  raw -1 gives 0, raw 0 gives 0.5, a raw value above 1 gives 1, one below -1 gives 0, and
  the score is always in \<open>[0, 1]\<close>.
\<close>

theorem similarity_is_rounded_clamp:
  "convert_distance_to_similarity raw
     = py_round (spec_clamp (float_div (float_add raw 1) 2) 0 1) 4
   \<and> (\<exists>k. convert_distance_to_similarity raw = round_to_double (of_int k / 10000)
          \<and> \<bar>of_int k / 10000 - spec_clamp (float_div (float_add raw 1) 2) 0 1\<bar> \<le> 1 / 20000)
   \<and> convert_distance_to_similarity 1 = 1
   \<and> convert_distance_to_similarity (- 1) = 0
   \<and> convert_distance_to_similarity 0 = 1 / 2
   \<and> (1 < raw \<longrightarrow> convert_distance_to_similarity raw = 1)
   \<and> (raw < - 1 \<longrightarrow> convert_distance_to_similarity raw = 0)
   \<and> 0 \<le> convert_distance_to_similarity raw
   \<and> convert_distance_to_similarity raw \<le> 1"
proof -
  let ?c = "spec_clamp (float_div (float_add raw 1) 2) 0 1"
  have e: "convert_distance_to_similarity raw = py_round ?c 4"
    by (simp add: convert_distance_to_similarity_def Let_def clamp_eq)
  have "0 \<le> ?c" "?c \<le> 1"
    by (auto simp: spec_clamp_def)
  from py_round_unit[OF this] have b: "0 \<le> convert_distance_to_similarity raw"
    "convert_distance_to_similarity raw \<le> 1"
    by (simp_all add: e)
  have n: "\<exists>k. convert_distance_to_similarity raw = round_to_double (of_int k / 10000)
          \<and> \<bar>of_int k / 10000 - ?c\<bar> \<le> 1 / 20000"
    using py_round_nearest[of ?c] by (simp add: e)
  show ?thesis
    using e n b similarity_one similarity_zero similarity_minus_one similarity_above
      similarity_below by blast
qed

theorem similarity_is_rounded_clamp_witness:
  "(1::real) < 3 \<and> convert_distance_to_similarity 3 = 1
   \<and> (- 2 :: real) < - 1 \<and> convert_distance_to_similarity (- 2) = 0
   \<and> convert_distance_to_similarity (1 / 10000) = 1 / 2
   \<and> convert_distance_to_similarity (- 1 / 10000) = 1 / 2
   \<and> convert_distance_to_similarity (1 / 3) = round_to_double (6667 / 10000)"
proof -
  have a: "convert_distance_to_similarity (1 / 10000) = 1 / 2"
    "convert_distance_to_similarity (- 1 / 10000) = 1 / 2" by code_simp+
  have b: "convert_distance_to_similarity (1 / 3) = round_to_double (6667 / 10000)" by code_simp
  from similarity_is_rounded_clamp[of 3] similarity_is_rounded_clamp[of "- 2"] a b
  show ?thesis by simp
qed

section \<open>Validation of identifiers\<close>

text \<open>
  Claim C8. A tool with \<open>action_id \<le> 0\<close> makes both write paths fail with a validation
  error and no call to the embedding service or the index: \<open>upsert_tool\<close> on that tool,
  and \<open>upsert_tools\<close> on any list that contains it, whatever the batch size. The trace
  after the call is the trace before it.
\<close>

theorem upsert_rejects_invalid_action_id:
  "(action_id tool \<le> 0 \<longrightarrow>
      upsert_tool self tool ns tr
        = (Inl (ToolSearchError ''Invalid action_id'' VALIDATION_ERROR), tr))
   \<and> ((\<exists>t\<in>set tools. action_id t \<le> 0) \<longrightarrow>
      (\<exists>m. upsert_tools self tools ns batch_size tr
              = (Inl (ToolSearchError m VALIDATION_ERROR), tr)))"
proof (intro conjI impI)
  assume "action_id tool \<le> 0"
  then show "upsert_tool self tool ns tr
               = (Inl (ToolSearchError ''Invalid action_id'' VALIDATION_ERROR), tr)"
    by (simp add: upsert_tool_def try_except_def raise_def upsert_tool_handler_def)
next
  assume a: "\<exists>t\<in>set tools. action_id t \<le> 0"
  then obtain t where "find (\<lambda>tool. action_id tool \<le> 0) tools = Some t"
    using find_nonpositive by blast
  moreover from a have "tools \<noteq> []" by auto
  ultimately show "\<exists>m. upsert_tools self tools ns batch_size tr
                         = (Inl (ToolSearchError m VALIDATION_ERROR), tr)"
    by (simp add: upsert_tools_def try_except_def raise_def upsert_tools_handler_def)
qed

theorem upsert_rejects_invalid_action_id_witness:
  "action_id (add_liquidity\<lparr>action_id := 0\<rparr>) \<le> 0
   \<and> upsert_tool example_provider (add_liquidity\<lparr>action_id := 0\<rparr>) ''test'' []
       = (Inl (ToolSearchError ''Invalid action_id'' VALIDATION_ERROR), [])
   \<and> (\<exists>t\<in>set [add_liquidity, remove_liquidity\<lparr>action_id := - 5\<rparr>]. action_id t \<le> 0)
   \<and> (\<exists>m. upsert_tools example_provider
             [add_liquidity, remove_liquidity\<lparr>action_id := - 5\<rparr>] ''test'' 100 []
           = (Inl (ToolSearchError m VALIDATION_ERROR), []))"
  using upsert_rejects_invalid_action_id
          [of "add_liquidity\<lparr>action_id := 0\<rparr>" example_provider "''test''" "[]"
              "[add_liquidity, remove_liquidity\<lparr>action_id := - 5\<rparr>]" 100]
  by simp

text \<open>
  Claim C10. The read operations validate their identifier too: \<open>get_tool_by_id\<close> with
  \<open>action_id \<le> 0\<close> and \<open>get_toolkit_tools\<close> with \<open>toolkit_id \<le> 0\<close> fail with a
  validation error, and the index is not contacted.
\<close>

theorem reads_reject_nonpositive_id:
  "(aid \<le> 0 \<longrightarrow>
      get_tool_by_id self aid ns tr
        = (Inl (ToolSearchError ''Invalid action_id'' VALIDATION_ERROR), tr))
   \<and> (tid \<le> 0 \<longrightarrow>
      get_toolkit_tools self tid ns tr
        = (Inl (ToolSearchError ''Invalid toolkit_id'' VALIDATION_ERROR), tr))"
  by (simp add: get_tool_by_id_def get_toolkit_tools_def try_except_def raise_def)

theorem reads_reject_nonpositive_id_witness:
  "(0::int) \<le> 0
   \<and> get_tool_by_id example_provider 0 ''test'' []
       = (Inl (ToolSearchError ''Invalid action_id'' VALIDATION_ERROR), [])
   \<and> (- 3 :: int) \<le> 0
   \<and> get_toolkit_tools example_provider (- 3) ''test'' []
       = (Inl (ToolSearchError ''Invalid toolkit_id'' VALIDATION_ERROR), [])"
  using reads_reject_nonpositive_id[of 0 example_provider "''test''" "[]" "- 3"]
  by simp

section \<open>Toolkit fetch\<close>

text \<open>
  Claim C9. For a positive \<open>toolkit_id\<close>, with the statistics call answered:
  if the vector count of the namespace is zero, \<open>get_toolkit_tools\<close> returns the empty
  list and has only asked for the statistics; otherwise (the dimension not negative) it
  issues one query after the statistics call, for \<open>min(100, vector_count)\<close> results under
  the membership filter on \<open>toolkit_id\<close>. When the index answers that query with at most
  the requested number of records, stored by the write path and with a readable
  parameters text, the operation returns one tool per record, at most 100, and does not
  raise: so it does for a namespace of 150 vectors.
\<close>

theorem get_toolkit_tools_bounded_query:
  assumes "0 < tid" and "describe_index_stats self tr = Inr stats"
  shows
    "(vector_count_of stats ns = 0 \<longrightarrow>
        get_toolkit_tools self tid ns tr = (Inr [], tr @ [DescribeIndexStats]))
     \<and> (vector_count_of stats ns \<noteq> 0 \<and> 0 \<le> embedding_dimension self \<longrightarrow>
          snd (get_toolkit_tools self tid ns tr)
            = tr @ [DescribeIndexStats,
                    IndexQuery (probe_vector self) (min 100 (vector_count_of stats ns))
                      (Some [(''toolkit_id'', PDict [(''$in'', PList [PInt tid])])]) ns]
          \<and> (\<forall>ms. index_query self (tr @ [DescribeIndexStats]) (probe_vector self)
                      (min 100 (vector_count_of stats ns))
                      (Some [(''toolkit_id'', PDict [(''$in'', PList [PInt tid])])]) ns = Inr ms
                   \<and> int (length ms) \<le> min 100 (vector_count_of stats ns)
                   \<and> stored_by_write_path (lib self) ms
                   \<and> all_readable (lib self) ms
                \<longrightarrow> (\<exists>ts. fst (get_toolkit_tools self tid ns tr) = Inr ts
                          \<and> length ts = length ms \<and> length ts \<le> 100)))"
proof (intro conjI impI allI)
  assume "vector_count_of stats ns = 0"
  then show "get_toolkit_tools self tid ns tr = (Inr [], tr @ [DescribeIndexStats])"
    using assms by (rule get_toolkit_tools_empty_namespace[rotated 2])
next
  assume n: "vector_count_of stats ns \<noteq> 0 \<and> 0 \<le> embedding_dimension self"
  note run = get_toolkit_tools_run[OF assms, of ns] 
  show "snd (get_toolkit_tools self tid ns tr)
            = tr @ [DescribeIndexStats,
                    IndexQuery (probe_vector self) (min 100 (vector_count_of stats ns))
                      (Some [(''toolkit_id'', PDict [(''$in'', PList [PInt tid])])]) ns]"
    using n by (simp add: run)
next
  fix ms
  assume n: "vector_count_of stats ns \<noteq> 0 \<and> 0 \<le> embedding_dimension self"
  assume h: "index_query self (tr @ [DescribeIndexStats]) (probe_vector self)
                      (min 100 (vector_count_of stats ns))
                      (Some [(''toolkit_id'', PDict [(''$in'', PList [PInt tid])])]) ns = Inr ms
                   \<and> int (length ms) \<le> min 100 (vector_count_of stats ns)
                   \<and> stored_by_write_path (lib self) ms
                   \<and> all_readable (lib self) ms"
  then have "\<forall>m\<in>set ms. m_metadata m \<in> range (build_tool_metadata (lib self))"
    and "\<forall>m\<in>set ms. parameters_readable (lib self) (m_metadata m)"
    by (simp_all add: stored_by_write_path_def all_readable_def list_all_iff)
  then have "\<forall>m\<in>set ms. \<exists>t. metadata_to_tool (lib self) (m_metadata m) = Inr t"
    using metadata_to_tool_stored by blast
  then obtain ts where ts: "for_each (\<lambda>m. metadata_to_tool (lib self) (m_metadata m)) ms = Inr ts"
    using for_each_succeeds[of ms "\<lambda>m. metadata_to_tool (lib self) (m_metadata m)"] by blast
  have "length ts = length ms"
    using for_each_list_all2[OF ts] by (simp add: list_all2_lengthD)
  moreover have "length ms \<le> 100" using h by linarith
  moreover have "fst (get_toolkit_tools self tid ns tr) = Inr ts"
    using n h ts by (simp add: get_toolkit_tools_run[OF assms, of ns])
  ultimately show "\<exists>ts. fst (get_toolkit_tools self tid ns tr) = Inr ts
                          \<and> length ts = length ms \<and> length ts \<le> 100"
    by auto
qed

theorem get_toolkit_tools_bounded_query_witness:
  "(0::int) < 79
   \<and> describe_index_stats crowded_provider [] = Inr (Some [(''test'', Some 150)])
   \<and> vector_count_of (Some [(''test'', Some 150)]) ''test'' = 150
   \<and> vector_count_of (Some [(''test'', Some 150)]) ''empty'' = 0
   \<and> get_toolkit_tools crowded_provider 79 ''empty'' [] = (Inr [], [DescribeIndexStats])
   \<and> snd (get_toolkit_tools crowded_provider 79 ''test'' [])
       = [DescribeIndexStats,
          IndexQuery (probe_vector crowded_provider) 100
            (Some [(''toolkit_id'', PDict [(''$in'', PList [PInt 79])])]) ''test'']
   \<and> (\<exists>ts. fst (get_toolkit_tools crowded_provider 79 ''test'' []) = Inr ts \<and> length ts = 100)"
proof -
  let ?stats = "Some [(''test'', Some (150::int))]"
  let ?ms = "map (\<lambda>i. \<lparr>m_metadata = build_tool_metadata example_lib (numbered_tool i),
                           m_score = 0\<rparr>) [0..<100]"
  have p: "(0::int) < 79" by simp
  have s: "describe_index_stats crowded_provider [] = Inr ?stats"
    by (simp add: crowded_provider_def)
  have v: "vector_count_of ?stats ''test'' = 150" "vector_count_of ?stats ''empty'' = 0"
    by (simp_all add: vector_count_of_def)
  have d: "0 \<le> embedding_dimension crowded_provider" "lib crowded_provider = example_lib"
    by (simp_all add: crowded_provider_def example_provider_def)
  have q: "index_query crowded_provider ([] @ [DescribeIndexStats]) (probe_vector crowded_provider)
             (min 100 (vector_count_of ?stats ''test''))
             (Some [(''toolkit_id'', PDict [(''$in'', PList [PInt 79])])]) ''test'' = Inr ?ms"
    by (simp add: crowded_provider_def v)
  have l: "int (length ?ms) \<le> min 100 (vector_count_of ?stats ''test'')" "length ?ms = 100"
    by (simp_all add: v)
  have w: "stored_by_write_path (lib crowded_provider) ?ms"
    "all_readable (lib crowded_provider) ?ms"
    by (simp_all add: stored_by_write_path_def all_readable_def list_all_iff d
          example_lib_readable)
  from get_toolkit_tools_bounded_query[OF p s, of "''test''"] get_toolkit_tools_bounded_query[OF p s, of "''empty''"] v d q l w
  show ?thesis using p s by (auto simp del: upt_rec_numeral)
qed

end
